theory Spec2Isabelle
  imports Main
begin

section \<open>The operating-system environment of the RPC transport\<close>

text \<open>
  The transport code of \<^verbatim>\<open>src/rpc/virnetsocket.c\<close> talks to the kernel through
  system calls.  A system call is modelled by the pair it leaves behind: its
  return value and the value of \<^verbatim>\<open>errno\<close> after the call.  The error numbers the
  code tests for are constructors of their own; every other one is \<open>EOTHER n\<close>.
\<close>

datatype errno = EINTR | EAGAIN | ECONNABORTED | EADDRINUSE | EIO | EOTHER nat

type_synonym sysret = "int \<times> errno"

text \<open>
  What \<^verbatim>\<open>virReportError\<close>, \<^verbatim>\<open>virReportSystemError\<close> and \<^verbatim>\<open>virReportOOMError\<close>
  record: the error kind, the error number of a system error, and the message.
  \<open>ResolveError\<close> is the system error ``Unable to resolve address'' with the
  code \<^verbatim>\<open>getaddrinfo\<close> returned; \<open>CalleeError\<close> stands for a failure that the
  called helper has reported itself.
\<close>

datatype virError =
    SystemError errno string
  | RPCError string
  | InternalError string
  | OperationInvalid string
  | OOMError
  | ResolveError int
  | CalleeError string

text \<open>
  The part of the process state the transport changes: the descriptors handed
  to \<^verbatim>\<open>close\<close>, the paths handed to \<^verbatim>\<open>unlink\<close>, the children handed to
  \<^verbatim>\<open>virProcessAbort\<close>, the event watches removed (all in call order), and the
  close-on-exec and non-blocking flags of every descriptor.
\<close>

record os_state =
  closed :: "int list"
  unlinked :: "string list"
  aborted :: "int list"
  removed_watches :: "int list"
  cloexec :: "int \<Rightarrow> bool"
  nonblock :: "int \<Rightarrow> bool"

text \<open>\<^verbatim>\<open>VIR_FORCE_CLOSE(fd)\<close>: closes a descriptor that is not negative.\<close>

definition VIR_FORCE_CLOSE :: "int \<Rightarrow> os_state \<Rightarrow> os_state" where
  "VIR_FORCE_CLOSE d os = (if 0 \<le> d then os\<lparr>closed := closed os @ [d]\<rparr> else os)"

text \<open>\<^verbatim>\<open>virProcessAbort(pid)\<close> does nothing for a pid that is not positive.\<close>

definition virProcessAbort :: "int \<Rightarrow> os_state \<Rightarrow> os_state" where
  "virProcessAbort p os = (if 0 < p then os\<lparr>aborted := aborted os @ [p]\<rparr> else os)"

section \<open>Sockets\<close>

datatype sa_family = AF_UNSPEC | AF_INET | AF_INET6 | AF_UNIX

text \<open>
  \<^verbatim>\<open>virSocketAddr\<close>: the address family, the path of a UNIX address (an
  abstract-namespace path starts with the NUL byte) and the remaining bytes.
  The all-zero address is what \<^verbatim>\<open>memset\<close> and \<^verbatim>\<open>virObjectNew\<close> leave.
\<close>

record virSocketAddr =
  sa_family :: sa_family
  sun_path :: string
  sa_data :: nat

definition zero_addr :: virSocketAddr where
  "zero_addr = \<lparr>sa_family = AF_UNSPEC, sun_path = [], sa_data = 0\<rparr>"

datatype tls_handshake = HANDSHAKE_COMPLETE | HANDSHAKE_SENDING | HANDSHAKE_RECVING

text \<open>
  \<^verbatim>\<open>struct _virNetSocket\<close>.  A session pointer is an option; the SASL session is
  represented by its maximum buffer size, the TLS session by its handshake
  status, the SSH session by the channel data it holds buffered.  \<open>saslEncoded\<close> is the pending encoded
  chunk (its length is \<^verbatim>\<open>saslEncodedLength\<close>).
\<close>

record virNetSocket =
  fd :: int
  watch :: int
  pid :: int
  errfd :: int
  client :: bool
  localAddr :: virSocketAddr
  remoteAddr :: virSocketAddr
  localAddrStr :: "string option"
  remoteAddrStr :: "string option"
  tlsSession :: "tls_handshake option"
  saslSession :: "nat option"
  saslDecoded :: "string option"
  saslDecodedOffset :: nat
  saslEncoded :: "string option"
  saslEncodedOffset :: nat
  sshSession :: "string option"

definition zero_socket :: virNetSocket where
  "zero_socket = \<lparr>fd = 0, watch = 0, pid = 0, errfd = 0, client = False,
     localAddr = zero_addr, remoteAddr = zero_addr,
     localAddrStr = None, remoteAddrStr = None,
     tlsSession = None, saslSession = None,
     saslDecoded = None, saslDecodedOffset = 0,
     saslEncoded = None, saslEncodedOffset = 0,
     sshSession = None\<rparr>"

text \<open>
  \<^verbatim>\<open>virNetSocketDispose\<close>: removes the event watch, unlinks the path of a
  listening UNIX socket that is not in the abstract namespace, closes both
  descriptors and aborts the child.  Dropping the session references and
  freeing the strings leaves no trace in \<open>os_state\<close>.
\<close>

definition virNetSocketDispose :: "virNetSocket \<Rightarrow> os_state \<Rightarrow> os_state" where
  "virNetSocketDispose sock os =
    (let os1 = (if 0 < watch sock
                then os\<lparr>removed_watches := removed_watches os @ [watch sock]\<rparr> else os);
         os2 = (if \<not> client sock \<and> sa_family (localAddr sock) = AF_UNIX \<and>
                   sun_path (localAddr sock) \<noteq> [] \<and>
                   hd (sun_path (localAddr sock)) \<noteq> CHR 0x00
                then os1\<lparr>unlinked := unlinked os1 @ [sun_path (localAddr sock)]\<rparr> else os1);
         os3 = VIR_FORCE_CLOSE (fd sock) os2;
         os4 = VIR_FORCE_CLOSE (errfd sock) os3
     in virProcessAbort (pid sock) os4)"

text \<open>
  The outcomes of the calls \<^verbatim>\<open>virNetSocketNew\<close> makes, in call order: a failing
  call is \<open>True\<close> or carries its \<^verbatim>\<open>errno\<close>; \<open>addrformat\<close> is
  \<^verbatim>\<open>virSocketAddrFormatFull\<close>, \<open>None\<close> when it fails.
\<close>

record new_env =
  initialize_fails :: bool
  setcloexec_err :: "errno option"
  setnonblock_err :: "errno option"
  objectnew_fails :: bool
  mutexinit_err :: "errno option"
  nodelay_err :: "errno option"
  addrformat :: "virSocketAddr \<Rightarrow> string option"

text \<open>
  The \<^verbatim>\<open>error:\<close> label of \<^verbatim>\<open>virNetSocketNew\<close>: both descriptors of the half-built
  socket are set to -1 (``Caller owns fd/errfd on failure'') and the last
  reference is dropped, which runs the disposer.
\<close>

definition new_error :: "virNetSocket \<Rightarrow> os_state \<Rightarrow> os_state" where
  "new_error sock os = virNetSocketDispose (sock\<lparr>fd := -1, errfd := -1\<rparr>) os"

definition virNetSocketNew ::
  "new_env \<Rightarrow> virSocketAddr option \<Rightarrow> virSocketAddr option \<Rightarrow> bool \<Rightarrow> int \<Rightarrow> int \<Rightarrow> int \<Rightarrow>
   os_state \<Rightarrow> (virError + virNetSocket) \<times> os_state" where
  "virNetSocketNew env la ra isClient fdn efd p os =
    (if initialize_fails env then (Inl (CalleeError ''virNetSocketInitialize''), os)
     else case setcloexec_err env of
       Some e \<Rightarrow> (Inl (SystemError e ''Unable to set close-on-exec flag''), os)
     | None \<Rightarrow>
       let os1 = os\<lparr>cloexec := (cloexec os)(fdn := True)\<rparr> in
       case setnonblock_err env of
         Some e \<Rightarrow> (Inl (SystemError e ''Unable to enable non-blocking flag''), os1)
       | None \<Rightarrow>
         let os2 = os1\<lparr>nonblock := (nonblock os1)(fdn := True)\<rparr> in
         if objectnew_fails env then (Inl (CalleeError ''virObjectNew''), os2)
         else case mutexinit_err env of
           Some e \<Rightarrow> (Inl (SystemError e ''Unable to initialize mutex''), os2)
         | None \<Rightarrow>
           let sock = zero_socket\<lparr>
                 localAddr := (case la of Some a \<Rightarrow> a | None \<Rightarrow> zero_addr),
                 remoteAddr := (case ra of Some a \<Rightarrow> a | None \<Rightarrow> zero_addr),
                 fd := fdn, errfd := efd, pid := p\<rparr> in
           if (sa_family (localAddr sock) = AF_INET \<or> sa_family (localAddr sock) = AF_INET6)
              \<and> nodelay_err env \<noteq> None
           then (Inl (SystemError (the (nodelay_err env)) ''Unable to disable nagle algorithm''),
                 new_error sock os2)
           else if la \<noteq> None \<and> addrformat env (the la) = None
           then (Inl (CalleeError ''virSocketAddrFormatFull''), new_error sock os2)
           else
             let sock1 = sock\<lparr>localAddrStr := (case la of Some a \<Rightarrow> addrformat env a | None \<Rightarrow> None)\<rparr> in
             if ra \<noteq> None \<and> addrformat env (the ra) = None
             then (Inl (CalleeError ''virSocketAddrFormatFull''), new_error sock1 os2)
             else
               let sock2 = sock1\<lparr>remoteAddrStr := (case ra of Some a \<Rightarrow> addrformat env a | None \<Rightarrow> None)\<rparr>
               in (Inr (sock2\<lparr>client := isClient\<rparr>), os2))"

text \<open>
  \<^verbatim>\<open>virNetSocketAccept\<close>.  The environment gives the result of \<^verbatim>\<open>accept\<close> (with
  the peer address it fills in), the result of \<^verbatim>\<open>getsockname\<close> on the accepted
  descriptor, and the outcomes of the calls of the constructor.  The result is
  the return value, the client socket stored through the output pointer, the
  error reported, and the process state.
\<close>

record accept_env =
  accept_ret :: sysret
  accept_peer :: virSocketAddr
  getsockname_ret :: "errno + virSocketAddr"
  accept_new :: new_env

definition virNetSocketAccept ::
  "virNetSocket \<Rightarrow> accept_env \<Rightarrow> os_state \<Rightarrow>
   int \<times> virNetSocket option \<times> virError option \<times> os_state" where
  "virNetSocketAccept sock env os =
    (let afd = fst (accept_ret env) in
     if afd < 0 then
       (if snd (accept_ret env) = ECONNABORTED \<or> snd (accept_ret env) = EAGAIN
        then (0, None, None, VIR_FORCE_CLOSE afd os)
        else (-1, None, Some (SystemError (snd (accept_ret env)) ''Unable to accept client''),
              VIR_FORCE_CLOSE afd os))
     else case getsockname_ret env of
       Inl e \<Rightarrow> (-1, None, Some (SystemError e ''Unable to get local socket name''),
                 VIR_FORCE_CLOSE afd os)
     | Inr la \<Rightarrow>
       (case virNetSocketNew (accept_new env) (Some la) (Some (accept_peer env)) True afd (-1) 0 os of
          (Inl err, os1) \<Rightarrow> (-1, None, Some err, VIR_FORCE_CLOSE afd os1)
        | (Inr cs, os1) \<Rightarrow> (0, Some cs, None, VIR_FORCE_CLOSE (-1) os1)))"

text \<open>
  Example values: a process state in which nothing has happened yet, an
  environment in which every call of the constructor succeeds, an IPv4
  address, and an environment of accept with a given result of \<^verbatim>\<open>accept\<close>.
\<close>

definition os0 :: os_state where
  "os0 = \<lparr>closed = [], unlinked = [], aborted = [], removed_watches = [],
          cloexec = (\<lambda>_. False), nonblock = (\<lambda>_. False)\<rparr>"

definition env_ok :: new_env where
  "env_ok = \<lparr>initialize_fails = False, setcloexec_err = None, setnonblock_err = None,
             objectnew_fails = False, mutexinit_err = None, nodelay_err = None,
             addrformat = (\<lambda>a. Some (sun_path a))\<rparr>"

definition addr4 :: virSocketAddr where
  "addr4 = \<lparr>sa_family = AF_INET, sun_path = [], sa_data = 2130706433\<rparr>"

definition acc_env :: "sysret \<Rightarrow> new_env \<Rightarrow> accept_env" where
  "acc_env r ne = \<lparr>accept_ret = r, accept_peer = addr4,
       getsockname_ret = Inr addr4, accept_new = ne\<rparr>"

section \<open>Wire input and output\<close>

text \<open>
  The environment of one call of \<^verbatim>\<open>virNetSocketReadWire\<close> or
  \<^verbatim>\<open>virNetSocketWriteWire\<close>: the results of the successive calls of
  \<^verbatim>\<open>virNetTLSSessionRead\<close>/\<^verbatim>\<open>virNetTLSSessionWrite\<close> and of
  \<^verbatim>\<open>read\<close>/\<^verbatim>\<open>write\<close> on the descriptor, what \<^verbatim>\<open>virFileReadLimFD\<close> gets from the
  error descriptor (\<open>None\<close> when it fails), the value that call leaves in
  \<^verbatim>\<open>errno\<close> (\<open>None\<close> when it leaves \<^verbatim>\<open>errno\<close> alone), and the result of the SSH
  channel.
\<close>

record io_env =
  tls_io :: "sysret list"
  fd_io :: "sysret list"
  errfd_text :: "string option"
  errfd_errno :: "errno option"
  ssh_ret :: int

text \<open>
  The primitive a socket uses on the wire: the TLS record layer once the
  handshake is complete, the descriptor otherwise.
\<close>

definition wire_calls :: "virNetSocket \<Rightarrow> io_env \<Rightarrow> sysret list" where
  "wire_calls sock env =
     (if tlsSession sock = Some HANDSHAKE_COMPLETE then tls_io env else fd_io env)"





text \<open>
  The \<^verbatim>\<open>rewrite:\<close> loop of \<^verbatim>\<open>virNetSocketWriteWire\<close>.  The primitive takes at
  most the bytes offered; the third component of the result is what went onto
  the wire.
\<close>

fun rewrite :: "string \<Rightarrow> sysret list \<Rightarrow> (int \<times> virError option \<times> string) option" where
  "rewrite buf [] = None"
| "rewrite buf (r # rs) =
    (let ret = min (fst r) (int (length buf)) in
     if ret < 0 then
       (if snd r = EINTR then rewrite buf rs
        else if snd r = EAGAIN then Some (0, None, [])
        else Some (-1, Some (SystemError (snd r) ''Cannot write data''), []))
     else if ret = 0 then
       Some (-1, Some (SystemError EIO ''End of file while writing data''), [])
     else Some (ret, None, take (nat ret) buf))"

definition virNetSocketWriteWire ::
  "virNetSocket \<Rightarrow> string \<Rightarrow> io_env \<Rightarrow> (int \<times> virError option \<times> string) option" where
  "virNetSocketWriteWire sock buf env =
    (if sshSession sock \<noteq> None
     then (let ret = min (ssh_ret env) (int (length buf)) in
           Some (ret, if ret < 0 then Some (CalleeError ''virNetSSHChannelWrite'') else None,
                 take (nat ret) buf))
     else rewrite buf (wire_calls sock env))"

text \<open>
  An environment of a socket without sessions: the results of the calls on the
  descriptor and the text of the error descriptor.
\<close>

definition io_of :: "sysret list \<Rightarrow> string option \<Rightarrow> io_env" where
  "io_of rs t = \<lparr>tls_io = [], fd_io = rs, errfd_text = t, errfd_errno = None, ssh_ret = 0\<rparr>"

section \<open>Writing through the SASL layer\<close>

text \<open>
  The result of one call of \<^verbatim>\<open>virNetSocketWrite\<close>: the return value, the error
  reported, the socket afterwards, the bytes that went onto the wire, and the
  plaintext chunks handed to \<^verbatim>\<open>virNetSASLSessionEncode\<close> during the call.
\<close>

record write_result =
  wr_ret :: int
  wr_err :: "virError option"
  wr_sock :: virNetSocket
  wr_sent :: string
  wr_encoded :: "string list"

text \<open>
  \<^verbatim>\<open>virNetSocketWriteSASL\<close>.  \<open>enc\<close> is \<^verbatim>\<open>virNetSASLSessionEncode\<close> (\<open>None\<close> when
  it fails) and the session is its maximum buffer size.  Sizes are natural
  numbers: the narrowing of the byte counts to \<^verbatim>\<open>int\<close> is not modelled.
\<close>

definition virNetSocketWriteSASL ::
  "(string \<Rightarrow> string option) \<Rightarrow> virNetSocket \<Rightarrow> string \<Rightarrow> io_env \<Rightarrow> write_result option" where
  "virNetSocketWriteSASL enc sock buf env =
    (let tosend = min (the (saslSession sock)) (length buf);
         fresh = (saslEncoded sock = None);
         chunk = (if fresh then enc (take tosend buf) else saslEncoded sock);
         plain = (if fresh then [take tosend buf] else [])
     in case chunk of
       None \<Rightarrow> Some \<lparr>wr_ret = -1, wr_err = Some (CalleeError ''virNetSASLSessionEncode''),
                      wr_sock = sock, wr_sent = [], wr_encoded = plain\<rparr>
     | Some e \<Rightarrow>
       let s1 = (if fresh then sock\<lparr>saslEncoded := Some e, saslEncodedOffset := 0\<rparr> else sock) in
       (case virNetSocketWriteWire s1 (drop (saslEncodedOffset s1) e) env of
          None \<Rightarrow> None
        | Some (ret, err, sent) \<Rightarrow>
          if ret \<le> 0
          then Some \<lparr>wr_ret = ret, wr_err = err, wr_sock = s1, wr_sent = sent, wr_encoded = plain\<rparr>
          else
            let s2 = s1\<lparr>saslEncodedOffset := saslEncodedOffset s1 + nat ret\<rparr> in
            if saslEncodedOffset s2 = length e
            then Some \<lparr>wr_ret = int tosend, wr_err = None,
                        wr_sock = s2\<lparr>saslEncoded := None, saslEncodedOffset := 0\<rparr>,
                        wr_sent = sent, wr_encoded = plain\<rparr>
            else Some \<lparr>wr_ret = 0, wr_err = None, wr_sock = s2, wr_sent = sent,
                        wr_encoded = plain\<rparr>))"

definition virNetSocketWrite ::
  "(string \<Rightarrow> string option) \<Rightarrow> virNetSocket \<Rightarrow> string \<Rightarrow> io_env \<Rightarrow> write_result option" where
  "virNetSocketWrite enc sock buf env =
    (if saslSession sock \<noteq> None then virNetSocketWriteSASL enc sock buf env
     else case virNetSocketWriteWire sock buf env of
       None \<Rightarrow> None
     | Some (ret, err, sent) \<Rightarrow>
         Some \<lparr>wr_ret = ret, wr_err = err, wr_sock = sock, wr_sent = sent, wr_encoded = []\<rparr>)"

text \<open>
  The caller the comments of \<^verbatim>\<open>virNetSocketWriteSASL\<close> expect (``the caller will
  then retry with same buffer''): it offers the part of its buffer that has
  not been accepted until all of it has been, and gives up when a write fails.
  Each call of \<^verbatim>\<open>virNetSocketWrite\<close> has an environment of its own.  The result
  is whether the buffer was sent, the socket, all bytes put on the wire, all
  chunks handed to the encoder and all values returned, in call order;
  \<open>None\<close> when the environments run out first.
\<close>

fun retry_write ::
  "(string \<Rightarrow> string option) \<Rightarrow> virNetSocket \<Rightarrow> string \<Rightarrow> io_env list \<Rightarrow>
   (bool \<times> virNetSocket \<times> string \<times> string list \<times> int list) option" where
  "retry_write enc sock [] envs = Some (True, sock, [], [], [])"
| "retry_write enc sock (b # bs) [] = None"
| "retry_write enc sock (b # bs) (env # envs) =
    (case virNetSocketWrite enc sock (b # bs) env of
       None \<Rightarrow> None
     | Some r \<Rightarrow>
       if wr_ret r < 0 then Some (False, wr_sock r, wr_sent r, wr_encoded r, [wr_ret r])
       else (case retry_write enc (wr_sock r) (drop (nat (wr_ret r)) (b # bs)) envs of
               None \<Rightarrow> None
             | Some (ok, s', wire, chunks, rets) \<Rightarrow>
                 Some (ok, s', wr_sent r @ wire, wr_encoded r @ chunks, wr_ret r # rets)))"

text \<open>
  Bookkeeping for the layer's single pending chunk: \<open>flushed\<close> is the part of
  the pending encoded chunk that is on the wire already, \<open>absorbed\<close> the
  plaintext that was encoded into it (the front of the caller's buffer), and
  \<open>same_buffer\<close> says that the pending chunk, if there is one, is the encoding
  of the front of the buffer now offered, that is, the caller retries with the
  buffer it offered when the chunk was encoded.
\<close>

definition flushed :: "virNetSocket \<Rightarrow> string" where
  "flushed sock = (case saslEncoded sock of None \<Rightarrow> [] | Some e \<Rightarrow> take (saslEncodedOffset sock) e)"

definition absorbed :: "virNetSocket \<Rightarrow> string \<Rightarrow> string list" where
  "absorbed sock buf =
     (if saslEncoded sock = None then [] else [take (min (the (saslSession sock)) (length buf)) buf])"

definition same_buffer :: "(string \<Rightarrow> string option) \<Rightarrow> virNetSocket \<Rightarrow> string \<Rightarrow> bool" where
  "same_buffer enc sock buf =
     (case saslEncoded sock of None \<Rightarrow> True
      | Some e \<Rightarrow> enc (take (min (the (saslSession sock)) (length buf)) buf) = Some e \<and>
                  saslEncodedOffset sock \<le> length e)"

text \<open>
  What one call of \<^verbatim>\<open>virNetSocketWriteSASL\<close> works on: \<open>sasl_chunk\<close> is the
  encoded chunk it flushes, the pending one or else the encoding of the front
  of the buffer offered (\<open>None\<close> when the encoder fails), \<open>sasl_offset\<close> is how
  much of that chunk is on the wire already, and \<open>fresh_chunks\<close> is the
  plaintext the call hands to the encoder: none while a chunk is pending.
\<close>

definition sasl_chunk :: "(string \<Rightarrow> string option) \<Rightarrow> virNetSocket \<Rightarrow> string \<Rightarrow> string option" where
  "sasl_chunk enc sock buf =
     (case saslEncoded sock of
        None \<Rightarrow> enc (take (min (the (saslSession sock)) (length buf)) buf)
      | Some e \<Rightarrow> Some e)"

definition sasl_offset :: "virNetSocket \<Rightarrow> nat" where
  "sasl_offset sock = (if saslEncoded sock = None then 0 else saslEncodedOffset sock)"

definition fresh_chunks :: "virNetSocket \<Rightarrow> string \<Rightarrow> string list" where
  "fresh_chunks sock buf =
     (if saslEncoded sock = None then [take (min (the (saslSession sock)) (length buf)) buf] else [])"

text \<open>
  What the wire does in one call of \<^verbatim>\<open>virNetSocketWriteWire\<close>, read off the
  environment: the result of the SSH channel, or else of the first call of the
  primitive that is not interrupted, as a number of bytes the wire is ready to
  take: 0 when it would block (\<^verbatim>\<open>EAGAIN\<close>), -1 when it fails; \<open>None\<close> when every
  call is interrupted.  The wire is blocked when that is 0 and open when it
  takes at least one byte.
\<close>

definition after_eintr :: "sysret list \<Rightarrow> sysret list" where
  "after_eintr rs = dropWhile (\<lambda>x. fst x < 0 \<and> snd x = EINTR) rs"

definition wire_ret :: "virNetSocket \<Rightarrow> io_env \<Rightarrow> int option" where
  "wire_ret sock env =
     (if sshSession sock \<noteq> None then Some (ssh_ret env)
      else case after_eintr (wire_calls sock env) of
             [] \<Rightarrow> None
           | r # _ \<Rightarrow> Some (if fst r < 0 \<and> snd r = EAGAIN then 0
                            else if fst r \<le> 0 then -1 else fst r))"

definition wire_blocked :: "virNetSocket \<Rightarrow> io_env \<Rightarrow> bool" where
  "wire_blocked sock env = (wire_ret sock env = Some 0)"

definition wire_open :: "virNetSocket \<Rightarrow> io_env \<Rightarrow> bool" where
  "wire_open sock env = (case wire_ret sock env of Some k \<Rightarrow> 0 < k | None \<Rightarrow> False)"

text \<open>
  For the progress of the retrying caller: \<open>pending_ok\<close> says that the pending
  chunk, if any, is the encoding of the front of the buffer, at most \<open>L\<close> bytes
  long and not flushed completely, and \<open>todo\<close> bounds the encoded bytes that
  are still to be put on the wire when no encoded chunk is longer than \<open>L\<close>.
\<close>

definition pending_ok ::
  "(string \<Rightarrow> string option) \<Rightarrow> nat \<Rightarrow> virNetSocket \<Rightarrow> string \<Rightarrow> bool" where
  "pending_ok enc L sock buf =
     (case saslEncoded sock of None \<Rightarrow> True
      | Some e \<Rightarrow> buf \<noteq> [] \<and> saslEncodedOffset sock < length e \<and> length e \<le> L \<and>
                  enc (take (min (the (saslSession sock)) (length buf)) buf) = Some e)"

definition todo :: "nat \<Rightarrow> virNetSocket \<Rightarrow> string \<Rightarrow> nat" where
  "todo L sock buf =
     (case saslEncoded sock of None \<Rightarrow> L * length buf
      | Some e \<Rightarrow> (length e - saslEncodedOffset sock) +
                  L * (length buf - min (the (saslSession sock)) (length buf)))"

text \<open>
  Example values: an encoder that puts its input between angle brackets, a
  socket whose SASL session has the maximum buffer size 4, and two sequences
  of environments: one with an interrupted, a blocked and a partial write, and
  one with a blocked write followed by writes that take two bytes each.
\<close>

definition enc0 :: "string \<Rightarrow> string option" where
  "enc0 c = Some (''<'' @ c @ ''>'')"

definition sasl_sock :: virNetSocket where
  "sasl_sock = zero_socket\<lparr>saslSession := Some 4\<rparr>"

definition envs0 :: "io_env list" where
  "envs0 = [io_of [(-1, EINTR), (-1, EAGAIN)] None, io_of [(3, EIO)] None,
            io_of [(100, EIO)] None, io_of [(100, EIO)] None]"

definition envs1 :: "io_env list" where
  "envs1 = io_of [(-1, EINTR), (-1, EAGAIN)] None # replicate 18 (io_of [(2, EIO)] None)"

section \<open>Saving a socket for exec-restart\<close>

text \<open>The JSON values the exec-restart documents are built from.\<close>

datatype json =
    JInt int
  | JBool bool
  | JString string
  | JArray "json list"
  | JObject "(string \<times> json) list"

text \<open>
  The outcomes of the calls \<^verbatim>\<open>virNetSocketPreExecRestart\<close> makes: whether
  \<^verbatim>\<open>virJSONValueNewObject\<close> fails, whether appending a key fails, and the
  \<^verbatim>\<open>errno\<close> of a failing \<^verbatim>\<open>virSetInherit\<close> on a descriptor.
\<close>

record restart_env =
  newobject_fails :: bool
  append_fails :: "string \<Rightarrow> bool"
  setinherit_err :: "int \<Rightarrow> errno option"

definition socket_doc :: "virNetSocket \<Rightarrow> json" where
  "socket_doc sock = JObject [(''fd'', JInt (fd sock)), (''errfd'', JInt (errfd sock)),
                              (''pid'', JInt (pid sock)), (''isClient'', JBool (client sock))]"

definition virNetSocketPreExecRestart ::
  "virNetSocket \<Rightarrow> restart_env \<Rightarrow> os_state \<Rightarrow> (virError + json) \<times> os_state" where
  "virNetSocketPreExecRestart sock env os =
    (if saslSession sock \<noteq> None
     then (Inl (OperationInvalid ''Unable to save socket state when SASL session is active''), os)
     else if tlsSession sock \<noteq> None
     then (Inl (OperationInvalid ''Unable to save socket state when TLS session is active''), os)
     else if newobject_fails env then (Inl (CalleeError ''virJSONValueNewObject''), os)
     else if append_fails env ''fd'' then (Inl (CalleeError ''virJSONValueObjectAppendNumberInt''), os)
     else if append_fails env ''errfd'' then (Inl (CalleeError ''virJSONValueObjectAppendNumberInt''), os)
     else if append_fails env ''pid'' then (Inl (CalleeError ''virJSONValueObjectAppendNumberInt''), os)
     else if append_fails env ''isClient'' then (Inl (CalleeError ''virJSONValueObjectAppendBoolean''), os)
     else case setinherit_err env (fd sock) of
       Some e \<Rightarrow> (Inl (SystemError e ''Cannot disable close-on-exec flag on socket''), os)
     | None \<Rightarrow>
       let os1 = os\<lparr>cloexec := (cloexec os)(fd sock := False)\<rparr> in
       if errfd sock \<noteq> -1 then
         (case setinherit_err env (errfd sock) of
            Some e \<Rightarrow> (Inl (SystemError e ''Cannot disable close-on-exec flag on pipe''), os1)
          | None \<Rightarrow> (Inr (socket_doc sock), os1\<lparr>cloexec := (cloexec os1)(errfd sock := False)\<rparr>))
       else (Inr (socket_doc sock), os1))"

text \<open>A socket tunnelled through SSH whose session holds buffered channel data.\<close>

definition ssh_sock :: virNetSocket where
  "ssh_sock = zero_socket\<lparr>fd := 7, errfd := -1, client := True, sshSession := Some ''buffered''\<rparr>"

definition restart_ok :: restart_env where
  "restart_ok = \<lparr>newobject_fails = False, append_fails = (\<lambda>_. False),
                 setinherit_err = (\<lambda>_. None)\<rparr>"

section \<open>Listening on the resolved addresses\<close>














section \<open>The server: messages, programs, connections and jobs\<close>

text \<open>
  The message kinds of the RPC protocol.  The server code tests for
  \<^verbatim>\<open>VIR_NET_CALL\<close> and \<^verbatim>\<open>VIR_NET_CALL_WITH_FDS\<close> and assigns \<^verbatim>\<open>VIR_NET_REPLY\<close>; the
  other kinds expect no reply.
\<close>

datatype msg_type =
    VIR_NET_CALL
  | VIR_NET_REPLY
  | VIR_NET_MESSAGE
  | VIR_NET_STREAM
  | VIR_NET_CALL_WITH_FDS
  | VIR_NET_REPLY_WITH_FDS

record virNetMessageHeader =
  h_prog :: nat
  h_vers :: nat
  h_proc :: nat
  h_type :: msg_type
  h_serial :: nat

text \<open>
  \<^verbatim>\<open>struct _virNetMessage\<close>: the header and the encoded bytes of the frame
  (\<^verbatim>\<open>buffer\<close>, of length \<^verbatim>\<open>bufferLength\<close>).
\<close>

record virNetMessage =
  header :: virNetMessageHeader
  buffer :: string

text \<open>
  The zeroed header; 0 is the code of \<^verbatim>\<open>VIR_NET_CALL\<close>.
\<close>

definition zero_header :: virNetMessageHeader where
  "zero_header = \<lparr>h_prog = 0, h_vers = 0, h_proc = 0, h_type = VIR_NET_CALL, h_serial = 0\<rparr>"

text \<open>
  Modelled from the spec: \<^verbatim>\<open>virNetMessageClear\<close> (\<^verbatim>\<open>virnetmessage.c\<close> is not among
  the sources) empties a message for reuse: the header is zeroed and no
  encoded bytes are left.
\<close>

definition virNetMessageClear :: "virNetMessage \<Rightarrow> virNetMessage" where
  "virNetMessageClear m = \<lparr>header = zero_header, buffer = []\<rparr>"

text \<open>
  What a Connection is handed for sending: the ``unknown program'' error reply
  for a request header, or a message.
\<close>

datatype frame = UnknownProgramError virNetMessageHeader | Message virNetMessage



text \<open>
  The messages logged at level INFO; the only one in the server is that of a
  dropped frame, with the program, version, type and procedure of its header.
\<close>

datatype info = DroppingClientMessage nat nat msg_type nat

text \<open>
  A Connection object (\<^verbatim>\<open>virNetServerClient\<close>) as the server sees it: its
  reference count, whether its disposer has run, the frames handed to it for
  sending, whether a dispatcher is installed, the keepalive parameters
  installed, whether it has been initialised, whether it has been closed, and
  its remote address.
\<close>

record client_obj =
  c_refs :: nat
  c_disposed :: bool
  c_tx :: "frame list"
  c_dispatcher :: bool
  c_keepalive :: "(int \<times> nat) option"
  c_init :: bool
  c_closed :: bool
  c_addr :: string

text \<open>
  A Program object: its reference count, whether its disposer has run, its
  matcher (\<^verbatim>\<open>virNetServerProgramMatches\<close>) and its priority function
  (\<^verbatim>\<open>virNetServerProgramGetPriority\<close>).
\<close>

record prog_obj =
  p_refs :: nat
  p_disposed :: bool
  p_matches :: "virNetMessage \<Rightarrow> bool"
  p_priority :: "nat \<Rightarrow> nat"

text \<open>\<^verbatim>\<open>struct _virNetServerJob\<close>; Connections and Programs are addresses.\<close>

record virNetServerJob =
  job_client :: nat
  job_msg :: virNetMessage
  job_prog :: "nat option"

text \<open>
  The worker pool: the three worker counts fixed at construction and the jobs
  submitted, each with its priority.
\<close>

record virThreadPool =
  minWorkers :: nat
  maxWorkers :: nat
  nPrioWorkers :: nat
  jobList :: "(nat \<times> virNetServerJob) list"

text \<open>
  \<^verbatim>\<open>struct _virNetServer\<close>: the fields the modelled functions use.  The three
  arrays are lists of addresses; \<^verbatim>\<open>nclients\<close> is the length of \<open>clients\<close>.
\<close>

record virNetServer =
  workers :: "virThreadPool option"
  mdnsGroupName :: "string option"
  services :: "nat list"
  programs :: "nat list"
  clients :: "nat list"
  nclients_max :: nat
  keepaliveInterval :: int
  keepaliveCount :: nat
  keepaliveRequired :: bool

text \<open>
  The server together with the objects it shares with jobs and callers, and
  the log of INFO messages.
\<close>

record world =
  srv :: virNetServer
  client_objs :: "nat \<Rightarrow> client_obj"
  prog_objs :: "nat \<Rightarrow> prog_obj"
  info_log :: "info list"

text \<open>
  \<^verbatim>\<open>virObjectRef\<close> and \<^verbatim>\<open>virObjectUnref\<close> on a Connection and on a Program; the
  disposer runs when the count reaches zero, and a null pointer is ignored.
\<close>

definition ref_client :: "nat \<Rightarrow> world \<Rightarrow> world" where
  "ref_client a w =
     w\<lparr>client_objs := (client_objs w)(a := (client_objs w a)\<lparr>c_refs := c_refs (client_objs w a) + 1\<rparr>)\<rparr>"

definition unref_client :: "nat \<Rightarrow> world \<Rightarrow> world" where
  "unref_client a w =
     (let c = client_objs w a; n = c_refs c - 1
      in w\<lparr>client_objs := (client_objs w)(a := c\<lparr>c_refs := n, c_disposed := (c_disposed c \<or> n = 0)\<rparr>)\<rparr>)"

definition ref_prog :: "nat option \<Rightarrow> world \<Rightarrow> world" where
  "ref_prog po w = (case po of None \<Rightarrow> w
     | Some p \<Rightarrow> w\<lparr>prog_objs := (prog_objs w)(p := (prog_objs w p)\<lparr>p_refs := p_refs (prog_objs w p) + 1\<rparr>)\<rparr>)"

definition unref_prog :: "nat option \<Rightarrow> world \<Rightarrow> world" where
  "unref_prog po w = (case po of None \<Rightarrow> w
     | Some p \<Rightarrow>
       let g = prog_objs w p; n = p_refs g - 1
       in w\<lparr>prog_objs := (prog_objs w)(p := g\<lparr>p_refs := n, p_disposed := (p_disposed g \<or> n = 0)\<rparr>)\<rparr>)"

text \<open>
  The outcomes of the calls the server makes into code that is not part of
  \<^verbatim>\<open>virnetserver.c\<close>: whether sending the error reply or a message fails; what \<^verbatim>\<open>virNetServerProgramDispatch\<close> returns and hands to
  the Connection; whether allocating or submitting a job fails; the address
  and remote address string of the Connection \<^verbatim>\<open>virNetServerClientNew\<close>
  creates (\<open>None\<close> when it fails); whether \<^verbatim>\<open>virNetServerClientInit\<close> and
  growing the client array fail.
\<close>

record srv_env =
  unknown_error_fails :: bool
  send_fails :: bool
  prog_dispatch :: "nat \<Rightarrow> virNetMessage \<Rightarrow> int \<times> frame list"
  job_alloc_fails :: bool
  sendjob_fails :: bool
  client_new :: "(nat \<times> string) option"
  client_init_fails :: bool
  clients_expand_fails :: bool

definition push_tx :: "nat \<Rightarrow> frame list \<Rightarrow> world \<Rightarrow> world" where
  "push_tx a fs w =
     w\<lparr>client_objs := (client_objs w)(a := (client_objs w a)\<lparr>c_tx := c_tx (client_objs w a) @ fs\<rparr>)\<rparr>"

text \<open>
  Modelled from the spec: \<^verbatim>\<open>virNetServerProgramUnknownError\<close>
  (\<^verbatim>\<open>virnetserverprogram.c\<close> is not among the sources) synthesizes and sends
  exactly one ``unknown program'' reply frame for the header to the Connection,
  or fails and sends nothing.
\<close>

definition virNetServerProgramUnknownError ::
  "srv_env \<Rightarrow> nat \<Rightarrow> virNetMessageHeader \<Rightarrow> world \<Rightarrow> int \<times> world" where
  "virNetServerProgramUnknownError env a h w =
     (if unknown_error_fails env then (-1, w) else (0, push_tx a [UnknownProgramError h] w))"

text \<open>
  Modelled from the spec: \<^verbatim>\<open>virNetServerClientSendMessage\<close>
  (\<^verbatim>\<open>virnetserverclient.c\<close> is not among the sources) appends the message to the
  Connection's transmit queue, or fails and leaves the queue as it is.  Which
  entries of the queue become reply frames is \<open>reply_frames\<close>.
\<close>

definition virNetServerClientSendMessage ::
  "srv_env \<Rightarrow> nat \<Rightarrow> virNetMessage \<Rightarrow> world \<Rightarrow> int \<times> world" where
  "virNetServerClientSendMessage env a m w =
     (if send_fails env then (-1, w) else (0, push_tx a [Message m] w))"

text \<open>
  Modelled from the spec: \<^verbatim>\<open>virNetServerProgramDispatch\<close> hands the frame to the
  Program's registered handler; what the handler returns and sends is given
  by the environment.
\<close>

definition virNetServerProgramDispatch ::
  "srv_env \<Rightarrow> nat \<Rightarrow> nat \<Rightarrow> virNetMessage \<Rightarrow> world \<Rightarrow> int \<times> world" where
  "virNetServerProgramDispatch env p a m w =
     (fst (prog_dispatch env p m), push_tx a (snd (prog_dispatch env p m)) w)"

text \<open>
  Modelled from the spec: \<^verbatim>\<open>virNetServerClientClose\<close> closes the Connection's
  transport.
\<close>

definition virNetServerClientClose :: "nat \<Rightarrow> world \<Rightarrow> world" where
  "virNetServerClientClose a w =
     w\<lparr>client_objs := (client_objs w)(a := (client_objs w a)\<lparr>c_closed := True\<rparr>)\<rparr>"

definition set_type :: "msg_type \<Rightarrow> virNetMessage \<Rightarrow> virNetMessage" where
  "set_type t m = m\<lparr>header := (header m)\<lparr>h_type := t\<rparr>\<rparr>"

text \<open>\<^verbatim>\<open>VIR_INFO\<close>: the message is appended to the log.\<close>

definition VIR_INFO :: "info \<Rightarrow> world \<Rightarrow> world" where
  "VIR_INFO i w = w\<lparr>info_log := info_log w @ [i]\<rparr>"

text \<open>\<^verbatim>\<open>virNetServerProcessMsg\<close>: the return value and the world afterwards.\<close>

definition virNetServerProcessMsg ::
  "srv_env \<Rightarrow> nat \<Rightarrow> nat option \<Rightarrow> virNetMessage \<Rightarrow> world \<Rightarrow> int \<times> world" where
  "virNetServerProcessMsg env a prog m w =
    (case prog of
       None \<Rightarrow>
         if h_type (header m) = VIR_NET_CALL \<or> h_type (header m) = VIR_NET_CALL_WITH_FDS
         then (case virNetServerProgramUnknownError env a (header m) w of
                 (r, w') \<Rightarrow> if r < 0 then (-1, w') else (0, w'))
         else (case virNetServerClientSendMessage env a
                      (set_type VIR_NET_REPLY (virNetMessageClear m))
                      (VIR_INFO (DroppingClientMessage (h_prog (header m)) (h_vers (header m))
                                   (h_type (header m)) (h_proc (header m))) w) of
                 (r, w') \<Rightarrow> if r < 0 then (-1, w') else (0, w'))
     | Some p \<Rightarrow>
         (case virNetServerProgramDispatch env p a m w of
            (r, w') \<Rightarrow> if r < 0 then (-1, w') else (0, w')))"

text \<open>
  \<^verbatim>\<open>virNetServerHandleJob\<close>, run by a worker on a job taken from the pool, as the
  worlds it goes through, one per statement: the frame is processed first;
  then both paths drop the job's Program reference and its Connection
  reference, the error path closing the Connection in between.  What the
  function leaves behind is the last of these worlds.
\<close>

definition virNetServerHandleJob_steps ::
  "srv_env \<Rightarrow> virNetServerJob \<Rightarrow> world \<Rightarrow> world list" where
  "virNetServerHandleJob_steps env job w =
    (case virNetServerProcessMsg env (job_client job) (job_prog job) (job_msg job) w of
       (r, w1) \<Rightarrow>
         if r < 0
         then (let w2 = unref_prog (job_prog job) w1;
                   w3 = virNetServerClientClose (job_client job) w2;
                   w4 = unref_client (job_client job) w3
               in [w1, w2, w3, w4])
         else (let w2 = unref_prog (job_prog job) w1;
                   w3 = unref_client (job_client job) w2
               in [w1, w2, w3]))"

definition virNetServerHandleJob :: "srv_env \<Rightarrow> virNetServerJob \<Rightarrow> world \<Rightarrow> world" where
  "virNetServerHandleJob env job w = last (virNetServerHandleJob_steps env job w)"

text \<open>
  Modelled from the spec: \<^verbatim>\<open>virThreadPoolSendJob\<close> (\<^verbatim>\<open>threadpool.c\<close> is not
  among the sources) submits the job with its priority to the pool, here by
  appending it to the pool's list; when it fails the pool is unchanged.
\<close>

definition enqueue :: "nat \<Rightarrow> virNetServerJob \<Rightarrow> virThreadPool \<Rightarrow> world \<Rightarrow> world" where
  "enqueue prio job pool w =
     w\<lparr>srv := (srv w)\<lparr>workers := Some (pool\<lparr>jobList := jobList pool @ [(prio, job)]\<rparr>)\<rparr>\<rparr>"

text \<open>
  \<^verbatim>\<open>virNetServerDispatchNewMessage\<close>: the first registered Program that matches
  is looked up; with a pool a job is built and submitted, without one the
  message is processed inline.
\<close>

definition virNetServerDispatchNewMessage ::
  "srv_env \<Rightarrow> nat \<Rightarrow> virNetMessage \<Rightarrow> world \<Rightarrow> int \<times> virError option \<times> world" where
  "virNetServerDispatchNewMessage env a m w =
    (let prog = find (\<lambda>p. p_matches (prog_objs w p) m) (programs (srv w)) in
     case workers (srv w) of
       Some pool \<Rightarrow>
         if job_alloc_fails env then (-1, Some OOMError, w)
         else
           let job = \<lparr>job_client = a, job_msg = m, job_prog = prog\<rparr>;
               w1 = ref_prog prog w;
               priority = (case prog of Some p \<Rightarrow> p_priority (prog_objs w p) (h_proc (header m))
                           | None \<Rightarrow> 0)
           in if sendjob_fails env
              then (-1, Some (CalleeError ''virThreadPoolSendJob''), unref_prog prog w1)
              else (0, None, enqueue priority job pool w1)
     | None \<Rightarrow>
         (case virNetServerProcessMsg env a prog m w of (r, w') \<Rightarrow> (r, None, w')))"

text \<open>
  Modelled from the spec: \<^verbatim>\<open>virNetServerClientNew\<close> yields a fresh Connection
  object holding one reference; \<^verbatim>\<open>virNetServerClientInit\<close> starts it,
  \<^verbatim>\<open>virNetServerClientSetDispatcher\<close> registers the dispatcher and
  \<^verbatim>\<open>virNetServerClientInitKeepAlive\<close> applies the keepalive parameters
  (\<^verbatim>\<open>virnetserverclient.c\<close> is not among the sources).
\<close>

definition new_client :: "string \<Rightarrow> client_obj" where
  "new_client addr = \<lparr>c_refs = 1, c_disposed = False, c_tx = [], c_dispatcher = False,
                       c_keepalive = None, c_init = False, c_closed = False, c_addr = addr\<rparr>"

definition virNetServerClientInit :: "nat \<Rightarrow> world \<Rightarrow> world" where
  "virNetServerClientInit a w =
     w\<lparr>client_objs := (client_objs w)(a := (client_objs w a)\<lparr>c_init := True\<rparr>)\<rparr>"

definition virNetServerClientSetDispatcher :: "nat \<Rightarrow> world \<Rightarrow> world" where
  "virNetServerClientSetDispatcher a w =
     w\<lparr>client_objs := (client_objs w)(a := (client_objs w a)\<lparr>c_dispatcher := True\<rparr>)\<rparr>"

definition virNetServerClientInitKeepAlive :: "nat \<Rightarrow> int \<Rightarrow> nat \<Rightarrow> world \<Rightarrow> world" where
  "virNetServerClientInitKeepAlive a i n w =
     w\<lparr>client_objs := (client_objs w)(a := (client_objs w a)\<lparr>c_keepalive := Some (i, n)\<rparr>)\<rparr>"

text \<open>
  \<^verbatim>\<open>virNetServerAddClient\<close>.  Error messages are the format strings of the
  source.
\<close>

definition virNetServerAddClient ::
  "srv_env \<Rightarrow> nat \<Rightarrow> world \<Rightarrow> int \<times> virError option \<times> world" where
  "virNetServerAddClient env a w =
    (if nclients_max (srv w) \<le> length (clients (srv w))
     then (-1, Some (RPCError ''Too many active clients (%zu), dropping connection from %s''), w)
     else if client_init_fails env
     then (-1, Some (CalleeError ''virNetServerClientInit''), w)
     else
       let w1 = virNetServerClientInit a w in
       if clients_expand_fails env then (-1, Some OOMError, w1)
       else
         let w2 = w1\<lparr>srv := (srv w1)\<lparr>clients := clients (srv w1) @ [a]\<rparr>\<rparr>;
             w3 = ref_client a w2;
             w4 = virNetServerClientSetDispatcher a w3;
             w5 = virNetServerClientInitKeepAlive a (keepaliveInterval (srv w4))
                    (keepaliveCount (srv w4)) w4
         in (0, None, w5))"

text \<open>
  \<^verbatim>\<open>virNetServerDispatchNewClient\<close>, the accept callback of a Service for a newly
  accepted transport.
\<close>

definition virNetServerDispatchNewClient ::
  "srv_env \<Rightarrow> world \<Rightarrow> int \<times> virError option \<times> world" where
  "virNetServerDispatchNewClient env w =
    (case client_new env of
       None \<Rightarrow> (-1, Some (CalleeError ''virNetServerClientNew''), w)
     | Some (a, addr) \<Rightarrow>
       let w0 = w\<lparr>client_objs := (client_objs w)(a := new_client addr)\<rparr> in
       (case virNetServerAddClient env a w0 of
          (r, err, w1) \<Rightarrow>
            if r < 0 then (-1, err, unref_client a (virNetServerClientClose a w1))
            else (0, None, unref_client a w1)))"

section \<open>Example messages, programs and servers\<close>


definition srv_ok :: srv_env where
  "srv_ok = \<lparr>unknown_error_fails = False, send_fails = False,
             prog_dispatch = (\<lambda>p m. (0, [])), job_alloc_fails = False, sendjob_fails = False,
             client_new = Some (5, ''127.0.0.1;40000''), client_init_fails = False,
             clients_expand_fails = False\<rparr>"

definition prog0 :: prog_obj where
  "prog0 = \<lparr>p_refs = 1, p_disposed = False, p_matches = (\<lambda>m. h_prog (header m) = 99),
            p_priority = (\<lambda>n. 1)\<rparr>"

definition world0 :: "virNetServer \<Rightarrow> world" where
  "world0 s = \<lparr>srv = s, client_objs = (\<lambda>_. new_client ''peer''), prog_objs = (\<lambda>_. prog0),
                info_log = []\<rparr>"

definition server0 :: virNetServer where
  "server0 = \<lparr>workers = Some \<lparr>minWorkers = 1, maxWorkers = 5, nPrioWorkers = 2, jobList = []\<rparr>,
              mdnsGroupName = None, services = [], programs = [0], clients = [0],
              nclients_max = 20, keepaliveInterval = 5, keepaliveCount = 3,
              keepaliveRequired = True\<rparr>"

definition known_call :: virNetMessage where
  "known_call = \<lparr>header = \<lparr>h_prog = 99, h_vers = 1, h_proc = 3, h_type = VIR_NET_CALL,
                            h_serial = 9\<rparr>, buffer = ''request''\<rparr>"


definition full_server :: virNetServer where
  "full_server = server0\<lparr>clients := [0, 1], nclients_max := 2\<rparr>"

section \<open>Saving and restoring the server across exec-restart\<close>

text \<open>
  The numbers of the document are written and read as \<^verbatim>\<open>unsigned int\<close>: a
  \<^verbatim>\<open>size_t\<close> or an \<^verbatim>\<open>int\<close> is reduced modulo \<open>2^32\<close> on the way in, and
  \<^verbatim>\<open>keepaliveInterval\<close> goes back to \<^verbatim>\<open>int\<close> on the way out.
\<close>

definition uint32 :: "nat \<Rightarrow> nat" where
  "uint32 n = n mod 4294967296"

definition uint_of_int :: "int \<Rightarrow> nat" where
  "uint_of_int i = nat (i mod 4294967296)"

definition int_of_uint :: "nat \<Rightarrow> int" where
  "int_of_uint u = (if uint32 u < 2147483648 then int (uint32 u) else int (uint32 u) - 4294967296)"

text \<open>
  Modelled from the spec: the structured document with named fields
  (\<^verbatim>\<open>virjson.c\<close> is not among the sources).  A field is looked up by its key; a
  number is read as an unsigned integer when it is one of 32 bits.
\<close>

definition virJSONValueObjectGet :: "json \<Rightarrow> string \<Rightarrow> json option" where
  "virJSONValueObjectGet obj k = (case obj of JObject kvs \<Rightarrow> map_of kvs k | _ \<Rightarrow> None)"

definition virJSONValueObjectGetNumberUint :: "json \<Rightarrow> string \<Rightarrow> nat option" where
  "virJSONValueObjectGetNumberUint obj k =
     (case virJSONValueObjectGet obj k of
        Some (JInt i) \<Rightarrow> if 0 \<le> i \<and> i < 4294967296 then Some (nat i) else None
      | _ \<Rightarrow> None)"

definition virJSONValueObjectGetBoolean :: "json \<Rightarrow> string \<Rightarrow> bool option" where
  "virJSONValueObjectGetBoolean obj k =
     (case virJSONValueObjectGet obj k of Some (JBool b) \<Rightarrow> Some b | _ \<Rightarrow> None)"

definition virJSONValueObjectGetString :: "json \<Rightarrow> string \<Rightarrow> string option" where
  "virJSONValueObjectGetString obj k =
     (case virJSONValueObjectGet obj k of Some (JString t) \<Rightarrow> Some t | _ \<Rightarrow> None)"

text \<open>
  The outcomes of the calls the two functions make outside
  \<^verbatim>\<open>virnetserver.c\<close>: the sub-document of a Service and of a Connection
  (\<open>None\<close> when saving it fails), the Service and the Connection rebuilt from
  a sub-document, whether creating the document, adding a key to it or
  appending a sub-document to an array fails, whether \<^verbatim>\<open>virNetServerNew\<close>
  fails, whether growing the Service array fails.
\<close>

record restart_srv_env =
  service_pre :: "nat \<Rightarrow> json option"
  client_pre :: "nat \<Rightarrow> json option"
  service_post :: "json \<Rightarrow> nat option"
  client_post :: "json \<Rightarrow> (nat \<times> string) option"
  object_new_fails :: bool
  json_fails :: "string \<Rightarrow> bool"
  array_append_fails :: "json \<Rightarrow> bool"
  srvnew_fails :: bool
  services_expand_fails :: bool

text \<open>
  \<^verbatim>\<open>virNetServerPreExecRestart\<close>.  Reading the worker counts of a server that
  has no pool dereferences a null pointer; the model makes that a failure.
  \<open>save_child\<close> is one round of either loop: the sub-document is produced and
  appended to the array.
\<close>

definition save_child :: "restart_srv_env \<Rightarrow> (nat \<Rightarrow> json option) \<Rightarrow> nat \<Rightarrow> json option" where
  "save_child env pre a =
     (case pre a of None \<Rightarrow> None
      | Some child \<Rightarrow> if array_append_fails env child then None else Some child)"

definition virNetServerPreExecRestart :: "restart_srv_env \<Rightarrow> world \<Rightarrow> virError + json" where
  "virNetServerPreExecRestart env w =
    (if object_new_fails env then Inl (CalleeError ''virJSONValueNewObject'')
     else case workers (srv w) of
       None \<Rightarrow> Inl (CalleeError ''virThreadPoolGetMinWorkers: no pool'')
     | Some pool \<Rightarrow>
       (case find (json_fails env)
               [''min_workers'', ''max_workers'', ''priority_workers'', ''max_clients'',
                ''keepaliveInterval'', ''keepaliveCount'', ''keepaliveRequired''] of
          Some k \<Rightarrow> Inl (InternalError (''Cannot set '' @ k @ '' data in JSON document''))
        | None \<Rightarrow>
          if mdnsGroupName (srv w) \<noteq> None \<and> json_fails env ''mdnsGroupName''
          then Inl (InternalError ''Cannot set mdnsGroupName data in JSON document'')
          else if json_fails env ''services'' then Inl (CalleeError ''virJSONValueObjectAppend'')
          else (case those (map (save_child env (service_pre env)) (services (srv w))) of
            None \<Rightarrow> Inl (CalleeError ''virNetServerServicePreExecRestart'')
          | Some sdocs \<Rightarrow>
            if json_fails env ''clients'' then Inl (CalleeError ''virJSONValueObjectAppend'')
            else (case those (map (save_child env (client_pre env)) (clients (srv w))) of
              None \<Rightarrow> Inl (CalleeError ''virNetServerClientPreExecRestart'')
            | Some cdocs \<Rightarrow>
              Inr (JObject (
                [(''min_workers'', JInt (int (uint32 (minWorkers pool)))),
                 (''max_workers'', JInt (int (uint32 (maxWorkers pool)))),
                 (''priority_workers'', JInt (int (uint32 (nPrioWorkers pool)))),
                 (''max_clients'', JInt (int (uint32 (nclients_max (srv w))))),
                 (''keepaliveInterval'', JInt (int (uint_of_int (keepaliveInterval (srv w))))),
                 (''keepaliveCount'', JInt (int (uint32 (keepaliveCount (srv w))))),
                 (''keepaliveRequired'', JBool (keepaliveRequired (srv w)))] @
                (case mdnsGroupName (srv w) of Some g \<Rightarrow> [(''mdnsGroupName'', JString g)]
                                              | None \<Rightarrow> []) @
                [(''services'', JArray sdocs), (''clients'', JArray cdocs)]))))))"

text \<open>
  Modelled from the spec: \<^verbatim>\<open>virThreadPoolNew\<close> (\<^verbatim>\<open>threadpool.c\<close> is not among
  the sources) fixes the minimum, maximum and priority-reserved worker counts
  of the pool at construction.
\<close>

definition virThreadPoolNew :: "nat \<Rightarrow> nat \<Rightarrow> nat \<Rightarrow> virThreadPool" where
  "virThreadPoolNew min_workers max_workers priority_workers =
     \<lparr>minWorkers = min_workers, maxWorkers = max_workers, nPrioWorkers = priority_workers,
      jobList = []\<rparr>"

text \<open>
  \<^verbatim>\<open>virNetServerNew\<close>: a pool is created when \<^verbatim>\<open>max_workers\<close> is not zero.  The
  first argument says whether one of its calls fails.
\<close>

definition virNetServerNew ::
  "bool \<Rightarrow> nat \<Rightarrow> nat \<Rightarrow> nat \<Rightarrow> nat \<Rightarrow> int \<Rightarrow> nat \<Rightarrow> bool \<Rightarrow> string option \<Rightarrow>
   virNetServer option" where
  "virNetServerNew fails min_workers max_workers priority_workers max_clients
       keepaliveInterval' keepaliveCount' keepaliveRequired' mdnsGroupName' =
    (if fails then None
     else Some \<lparr>workers = (if max_workers \<noteq> 0
                           then Some (virThreadPoolNew min_workers max_workers priority_workers)
                           else None),
                mdnsGroupName = mdnsGroupName', services = [], programs = [], clients = [],
                nclients_max = max_clients, keepaliveInterval = keepaliveInterval',
                keepaliveCount = keepaliveCount', keepaliveRequired = keepaliveRequired'\<rparr>)"

definition virNetServerAddService ::
  "restart_srv_env \<Rightarrow> nat \<Rightarrow> world \<Rightarrow> int \<times> virError option \<times> world" where
  "virNetServerAddService env svc w =
    (if services_expand_fails env then (-1, Some OOMError, w)
     else (0, None, w\<lparr>srv := (srv w)\<lparr>services := services (srv w) @ [svc]\<rparr>\<rparr>))"

text \<open>The two loops of \<^verbatim>\<open>virNetServerNewPostExecRestart\<close> over the sub-documents.\<close>

fun restore_services :: "restart_srv_env \<Rightarrow> json list \<Rightarrow> world \<Rightarrow> virError + world" where
  "restore_services env [] w = Inr w"
| "restore_services env (child # rest) w =
    (case service_post env child of
       None \<Rightarrow> Inl (CalleeError ''virNetServerServiceNewPostExecRestart'')
     | Some svc \<Rightarrow>
       (case virNetServerAddService env svc w of
          (r, err, w1) \<Rightarrow>
            if r < 0 then Inl (case err of Some e \<Rightarrow> e | None \<Rightarrow> OOMError)
            else restore_services env rest w1))"

fun restore_clients ::
  "restart_srv_env \<Rightarrow> srv_env \<Rightarrow> json list \<Rightarrow> world \<Rightarrow> virError + world" where
  "restore_clients env senv [] w = Inr w"
| "restore_clients env senv (child # rest) w =
    (case client_post env child of
       None \<Rightarrow> Inl (CalleeError ''virNetServerClientNewPostExecRestart'')
     | Some (a, addr) \<Rightarrow>
       let w0 = w\<lparr>client_objs := (client_objs w)(a := new_client addr)\<rparr> in
       (case virNetServerAddClient senv a w0 of
          (r, err, w1) \<Rightarrow>
            if r < 0 then Inl (case err of Some e \<Rightarrow> e | None \<Rightarrow> OOMError)
            else restore_clients env senv rest (unref_client a w1)))"

definition need :: "string \<Rightarrow> 'a option \<Rightarrow> ('a \<Rightarrow> virError + 'b) \<Rightarrow> virError + 'b" where
  "need k v f = (case v of
       None \<Rightarrow> Inl (InternalError (''Missing '' @ k @ '' data in JSON document''))
     | Some x \<Rightarrow> f x)"

text \<open>
  \<^verbatim>\<open>virNetServerNewPostExecRestart\<close>.  The world given holds the objects of the
  new process; its server is the one built here.  The arguments of
  \<^verbatim>\<open>virNetServerNew\<close> are those of the source, in its order.
\<close>

definition virNetServerNewPostExecRestart ::
  "restart_srv_env \<Rightarrow> srv_env \<Rightarrow> json \<Rightarrow> world \<Rightarrow> virError + world" where
  "virNetServerNewPostExecRestart env senv object w =
    need ''min_workers'' (virJSONValueObjectGetNumberUint object ''min_workers'') (\<lambda>min_workers.
    need ''max_workers'' (virJSONValueObjectGetNumberUint object ''max_workers'') (\<lambda>max_workers.
    need ''priority_workers'' (virJSONValueObjectGetNumberUint object ''priority_workers'') (\<lambda>priority_workers.
    need ''max_clients'' (virJSONValueObjectGetNumberUint object ''max_clients'') (\<lambda>max_clients.
    need ''keepaliveInterval'' (virJSONValueObjectGetNumberUint object ''keepaliveInterval'') (\<lambda>keepaliveInterval'.
    need ''keepaliveCount'' (virJSONValueObjectGetNumberUint object ''keepaliveCount'') (\<lambda>keepaliveCount'.
    need ''keepaliveRequired'' (virJSONValueObjectGetBoolean object ''keepaliveRequired'') (\<lambda>keepaliveRequired'.
    if virJSONValueObjectGet object ''mdnsGroupName'' \<noteq> None \<and>
       virJSONValueObjectGetString object ''mdnsGroupName'' = None
    then Inl (InternalError ''Malformed mdnsGroupName data in JSON document'')
    else
      (case virNetServerNew (srvnew_fails env) min_workers max_clients
              priority_workers max_clients
              (int_of_uint keepaliveInterval') keepaliveCount'
              keepaliveRequired' (virJSONValueObjectGetString object ''mdnsGroupName'') of
         None \<Rightarrow> Inl (CalleeError ''virNetServerNew'')
       | Some s \<Rightarrow>
         need ''services'' (virJSONValueObjectGet object ''services'') (\<lambda>svs.
         case svs of
           JArray sdocs \<Rightarrow>
             (case restore_services env sdocs (w\<lparr>srv := s\<rparr>) of
                Inl e \<Rightarrow> Inl e
              | Inr w1 \<Rightarrow>
                need ''clients'' (virJSONValueObjectGet object ''clients'') (\<lambda>cls.
                case cls of
                  JArray cdocs \<Rightarrow> restore_clients env senv cdocs w1
                | _ \<Rightarrow> Inl (InternalError ''Malformed clients data in JSON document'')))
         | _ \<Rightarrow> Inl (InternalError ''Malformed services data in JSON document'')))
    )))))))"

text \<open>
  A server with a pool of at most 5 workers and room for 20 Connections, one
  Service and one Connection; sub-documents that round-trip; the document it
  is saved as.
\<close>

definition server1 :: virNetServer where
  "server1 = server0\<lparr>services := [3], clients := [0]\<rparr>"

definition blank_server :: virNetServer where
  "blank_server = \<lparr>workers = None, mdnsGroupName = None, services = [], programs = [],
                   clients = [], nclients_max = 0, keepaliveInterval = 0, keepaliveCount = 0,
                   keepaliveRequired = False\<rparr>"

definition unwrap :: "json \<Rightarrow> nat option" where
  "unwrap d = (case d of JObject [(k, JInt i)] \<Rightarrow> Some (nat i) | _ \<Rightarrow> None)"

definition renv0 :: restart_srv_env where
  "renv0 = \<lparr>service_pre = (\<lambda>a. Some (JObject [(''service'', JInt (int a))])),
            client_pre = (\<lambda>a. Some (JObject [(''client'', JInt (int a))])),
            service_post = unwrap,
            client_post = (\<lambda>d. map_option (\<lambda>a. (a, ''peer'')) (unwrap d)),
            object_new_fails = False, json_fails = (\<lambda>_. False),
            array_append_fails = (\<lambda>_. False), srvnew_fails = False,
            services_expand_fails = False\<rparr>"

definition doc1 :: json where
  "doc1 = JObject [(''min_workers'', JInt 1), (''max_workers'', JInt 5),
                   (''priority_workers'', JInt 2), (''max_clients'', JInt 20),
                   (''keepaliveInterval'', JInt 5), (''keepaliveCount'', JInt 3),
                   (''keepaliveRequired'', JBool True),
                   (''services'', JArray [JObject [(''service'', JInt 3)]]),
                   (''clients'', JArray [JObject [(''client'', JInt 0)]])]"

section \<open>Properties of the socket constructor and of accept\<close>

lemma dispose_no_fd_closed:
  "fd sock < 0 \<Longrightarrow> errfd sock < 0 \<Longrightarrow> closed (virNetSocketDispose sock os) = closed os"
  by (simp add: virNetSocketDispose_def VIR_FORCE_CLOSE_def virProcessAbort_def Let_def)

lemma new_error_closed: "closed (new_error sock os) = closed os"
  by (simp add: new_error_def dispose_no_fd_closed)

lemma virNetSocketNew_closed:
  "closed (snd (virNetSocketNew env la ra isClient fdn efd p os)) = closed os"
  by (simp add: virNetSocketNew_def Let_def new_error_closed split: option.splits)

lemma virNetSocketNew_fields:
  "virNetSocketNew env la ra isClient fdn efd p os = (Inr s, os') \<Longrightarrow>
   fd s = fdn \<and> errfd s = efd \<and> pid s = p \<and> client s = isClient"
  by (auto simp: virNetSocketNew_def Let_def split: option.splits if_splits)

text \<open>
  Claim C9.  Whatever stage of \<^verbatim>\<open>virNetSocketNew\<close> fails, no descriptor at all has
  been closed when the failure is returned, so the caller still owns \<open>fd\<close> and
  \<open>errfd\<close>.  When the constructor succeeds it has closed nothing either, the
  socket holds exactly the two descriptors, and disposing of the socket closes
  the primary descriptor and then the error descriptor when they are not
  negative.
\<close>

theorem virNetSocketNew_ownership:
  "(case virNetSocketNew env la ra isClient fdn efd p os of
      (Inl err, os') \<Rightarrow> closed os' = closed os
    | (Inr s, os') \<Rightarrow>
        closed os' = closed os \<and> fd s = fdn \<and> errfd s = efd \<and>
        closed (virNetSocketDispose s os') =
          closed os @ (if 0 \<le> fdn then [fdn] else []) @ (if 0 \<le> efd then [efd] else []))"
proof (cases "virNetSocketNew env la ra isClient fdn efd p os")
  case (Pair r os')
  have c: "closed os' = closed os"
    using virNetSocketNew_closed [of env la ra isClient fdn efd p os] Pair by simp
  show ?thesis
  proof (cases r)
    case (Inl err)
    with Pair c show ?thesis by simp
  next
    case (Inr s)
    with Pair have f: "fd s = fdn \<and> errfd s = efd"
      using virNetSocketNew_fields by blast
    have "closed (virNetSocketDispose s os') =
          closed os' @ (if 0 \<le> fd s then [fd s] else []) @ (if 0 \<le> errfd s then [errfd s] else [])"
      by (simp add: virNetSocketDispose_def VIR_FORCE_CLOSE_def virProcessAbort_def Let_def)
    with Pair Inr c f show ?thesis by simp
  qed
qed

theorem virNetSocketNew_ownership_witness:
  "(\<exists>err os'. virNetSocketNew (env_ok\<lparr>nodelay_err := Some (EOTHER 92)\<rparr>)
        (Some addr4) None False 7 8 0 os0 = (Inl err, os') \<and> closed os' = []) \<and>
   (\<exists>s os'. virNetSocketNew env_ok (Some addr4) None False 7 8 0 os0 = (Inr s, os') \<and>
        closed (virNetSocketDispose s os') = [7, 8])"
proof -
  have a: "\<exists>err os'. virNetSocketNew (env_ok\<lparr>nodelay_err := Some (EOTHER 92)\<rparr>)
        (Some addr4) None False 7 8 0 os0 = (Inl err, os')"
    by (simp add: virNetSocketNew_def env_ok_def addr4_def Let_def)
  have b: "\<exists>s os'. virNetSocketNew env_ok (Some addr4) None False 7 8 0 os0 = (Inr s, os')"
    by (simp add: virNetSocketNew_def env_ok_def addr4_def Let_def)
  have c: "closed os0 = []" by (simp add: os0_def)
  from a c virNetSocketNew_ownership [where env = "env_ok\<lparr>nodelay_err := Some (EOTHER 92)\<rparr>"
      and la = "Some addr4" and ra = None and isClient = False and fdn = 7 and efd = 8
      and p = 0 and os = os0]
  have 1: "\<exists>err os'. virNetSocketNew (env_ok\<lparr>nodelay_err := Some (EOTHER 92)\<rparr>)
        (Some addr4) None False 7 8 0 os0 = (Inl err, os') \<and> closed os' = []"
    by auto
  from b c virNetSocketNew_ownership [where env = env_ok
      and la = "Some addr4" and ra = None and isClient = False and fdn = 7 and efd = 8
      and p = 0 and os = os0]
  have 2: "\<exists>s os'. virNetSocketNew env_ok (Some addr4) None False 7 8 0 os0 = (Inr s, os') \<and>
        closed (virNetSocketDispose s os') = [7, 8]"
    by auto
  from 1 2 show ?thesis by blast
qed

lemma force_close_neg: "d < 0 \<Longrightarrow> VIR_FORCE_CLOSE d os = os"
  by (simp add: VIR_FORCE_CLOSE_def)

lemma force_close_closed: "0 \<le> d \<Longrightarrow> closed (VIR_FORCE_CLOSE d os) = closed os @ [d]"
  by (simp add: VIR_FORCE_CLOSE_def)

text \<open>
  Claim C10.  When \<^verbatim>\<open>accept\<close> fails with \<^verbatim>\<open>ECONNABORTED\<close> or \<^verbatim>\<open>EAGAIN\<close>,
  \<^verbatim>\<open>virNetSocketAccept\<close> returns 0 with a null client socket and no error; any
  other failure of \<^verbatim>\<open>accept\<close> returns -1.  A client socket is produced only
  when \<^verbatim>\<open>accept\<close> gave a descriptor and the constructor wrapped it (then the
  return value is 0 and the descriptor is left open in the socket).  When
  \<^verbatim>\<open>accept\<close> gave a descriptor and no client socket is produced, the return value
  is -1 and exactly that descriptor has been closed.
\<close>

theorem virNetSocketAccept_outcomes:
  "(case virNetSocketAccept sock env os of (ret, cs, err, os') \<Rightarrow>
     (fst (accept_ret env) < 0 \<and> snd (accept_ret env) \<in> {ECONNABORTED, EAGAIN} \<longrightarrow>
        ret = 0 \<and> cs = None \<and> err = None \<and> closed os' = closed os) \<and>
     (fst (accept_ret env) < 0 \<and> snd (accept_ret env) \<notin> {ECONNABORTED, EAGAIN} \<longrightarrow>
        ret = -1 \<and> cs = None \<and> err \<noteq> None \<and> closed os' = closed os) \<and>
     (\<forall>s. cs = Some s \<longrightarrow>
        0 \<le> fst (accept_ret env) \<and> ret = 0 \<and> err = None \<and> fd s = fst (accept_ret env) \<and>
        closed os' = closed os \<and>
        (\<exists>la. getsockname_ret env = Inr la \<and>
           fst (virNetSocketNew (accept_new env) (Some la) (Some (accept_peer env)) True
                  (fst (accept_ret env)) (-1) 0 os) = Inr s)) \<and>
     (0 \<le> fst (accept_ret env) \<and> cs = None \<longrightarrow>
        ret = -1 \<and> err \<noteq> None \<and> closed os' = closed os @ [fst (accept_ret env)]))"
proof (cases "fst (accept_ret env) < 0")
  case True
  then show ?thesis
    by (simp add: virNetSocketAccept_def Let_def force_close_neg)
next
  case nonneg: False
  show ?thesis
  proof (cases "getsockname_ret env")
    case (Inl e)
    with nonneg show ?thesis
      by (simp add: virNetSocketAccept_def Let_def force_close_closed)
  next
    case (Inr la)
    obtain r os1 where n: "virNetSocketNew (accept_new env) (Some la) (Some (accept_peer env)) True
                  (fst (accept_ret env)) (-1) 0 os = (r, os1)"
      by (cases "virNetSocketNew (accept_new env) (Some la) (Some (accept_peer env)) True
                  (fst (accept_ret env)) (-1) 0 os")
    have c: "closed os1 = closed os"
      using virNetSocketNew_closed [of "accept_new env" "Some la" "Some (accept_peer env)" True
                  "fst (accept_ret env)" "-1" 0 os] n by simp
    show ?thesis
    proof (cases r)
      case (Inl err)
      with nonneg Inr n c show ?thesis
        by (simp add: virNetSocketAccept_def Let_def force_close_closed)
    next
      case r: (Inr s)
      with n have "fd s = fst (accept_ret env)"
        using virNetSocketNew_fields by blast
      with nonneg Inr n c r show ?thesis
        by (simp add: virNetSocketAccept_def Let_def force_close_neg)
    qed
  qed
qed

theorem virNetSocketAccept_outcomes_witness:
  "(\<exists>os'. virNetSocketAccept zero_socket (acc_env (-1, EAGAIN) env_ok) os0 = (0, None, None, os')
        \<and> closed os' = []) \<and>
   (\<exists>err os'. virNetSocketAccept zero_socket (acc_env (-1, EOTHER 24) env_ok) os0
        = (-1, None, err, os')) \<and>
   (\<exists>err os'. virNetSocketAccept zero_socket
        (acc_env (9, EAGAIN) (env_ok\<lparr>nodelay_err := Some (EOTHER 92)\<rparr>)) os0
        = (-1, None, err, os') \<and> closed os' = [9]) \<and>
   (\<exists>s os'. virNetSocketAccept zero_socket (acc_env (9, EAGAIN) env_ok) os0
        = (0, Some s, None, os') \<and> fd s = 9 \<and> closed os' = [])"
proof -
  have c: "closed os0 = []" by (simp add: os0_def)
  have e1: "fst (accept_ret (acc_env (-1, EAGAIN) env_ok)) < 0 \<and>
            snd (accept_ret (acc_env (-1, EAGAIN) env_ok)) \<in> {ECONNABORTED, EAGAIN}"
    by (simp add: acc_env_def)
  have e2: "fst (accept_ret (acc_env (-1, EOTHER 24) env_ok)) < 0 \<and>
            snd (accept_ret (acc_env (-1, EOTHER 24) env_ok)) \<notin> {ECONNABORTED, EAGAIN}"
    by (simp add: acc_env_def)
  have e3: "fst (accept_ret (acc_env (9, EAGAIN) ne)) = 9" for ne
    by (simp add: acc_env_def)
  have n3: "\<exists>err os'. virNetSocketAccept zero_socket
        (acc_env (9, EAGAIN) (env_ok\<lparr>nodelay_err := Some (EOTHER 92)\<rparr>)) os0 = (-1, None, err, os')"
    by (simp add: virNetSocketAccept_def virNetSocketNew_def acc_env_def env_ok_def addr4_def Let_def)
  have n4: "\<exists>s os'. virNetSocketAccept zero_socket (acc_env (9, EAGAIN) env_ok) os0
        = (0, Some s, None, os')"
    by (simp add: virNetSocketAccept_def virNetSocketNew_def acc_env_def env_ok_def addr4_def Let_def)
  from e1 c virNetSocketAccept_outcomes [where sock = zero_socket
        and env = "acc_env (-1, EAGAIN) env_ok" and os = os0]
  have 1: "\<exists>os'. virNetSocketAccept zero_socket (acc_env (-1, EAGAIN) env_ok) os0 = (0, None, None, os')
        \<and> closed os' = []"
    by (cases "virNetSocketAccept zero_socket (acc_env (-1, EAGAIN) env_ok) os0") auto
  from e2 virNetSocketAccept_outcomes [where sock = zero_socket
        and env = "acc_env (-1, EOTHER 24) env_ok" and os = os0]
  have 2: "\<exists>err os'. virNetSocketAccept zero_socket (acc_env (-1, EOTHER 24) env_ok) os0
        = (-1, None, err, os')"
    by (cases "virNetSocketAccept zero_socket (acc_env (-1, EOTHER 24) env_ok) os0") auto
  from n3 c e3 virNetSocketAccept_outcomes [where sock = zero_socket
        and env = "acc_env (9, EAGAIN) (env_ok\<lparr>nodelay_err := Some (EOTHER 92)\<rparr>)" and os = os0]
  have 3: "\<exists>err os'. virNetSocketAccept zero_socket
        (acc_env (9, EAGAIN) (env_ok\<lparr>nodelay_err := Some (EOTHER 92)\<rparr>)) os0
        = (-1, None, err, os') \<and> closed os' = [9]"
    by auto
  from n4 c e3 virNetSocketAccept_outcomes [where sock = zero_socket
        and env = "acc_env (9, EAGAIN) env_ok" and os = os0]
  have 4: "\<exists>s os'. virNetSocketAccept zero_socket (acc_env (9, EAGAIN) env_ok) os0
        = (0, Some s, None, os') \<and> fd s = 9 \<and> closed os' = []"
    by auto
  from 1 2 3 4 show ?thesis by blast
qed

section \<open>Properties: wire input and output\<close>









section \<open>Properties: writing through the SASL layer\<close>

lemma rewrite_sent:
  "rewrite buf rs = Some (ret, err, sent) \<Longrightarrow>
   ret \<le> int (length buf) \<and> sent = take (nat ret) buf \<and> (ret \<le> 0 \<longrightarrow> sent = [])"
  by (induction rs) (auto simp: Let_def split: if_splits)

lemma WriteWire_sent:
  "virNetSocketWriteWire sock buf env = Some (ret, err, sent) \<Longrightarrow>
   ret \<le> int (length buf) \<and> sent = take (nat ret) buf \<and> (ret \<le> 0 \<longrightarrow> sent = [])"
  by (auto simp: virNetSocketWriteWire_def Let_def dest: rewrite_sent split: if_splits)

lemma WriteWire_cong:
  "sshSession s' = sshSession s \<Longrightarrow> tlsSession s' = tlsSession s \<Longrightarrow>
   virNetSocketWriteWire s' buf env = virNetSocketWriteWire s buf env"
  by (simp add: virNetSocketWriteWire_def wire_calls_def)

lemma rewrite_after_eintr: "rewrite buf rs = rewrite buf (after_eintr rs)"
  by (induction rs) (auto simp: after_eintr_def Let_def min_def)

lemma WriteWire_blocked:
  "wire_blocked sock env \<Longrightarrow> virNetSocketWriteWire sock buf env = Some (0, None, [])"
  using rewrite_after_eintr [of buf "wire_calls sock env"]
  by (auto simp: wire_blocked_def wire_ret_def virNetSocketWriteWire_def Let_def min_def
           split: if_splits list.splits)

lemma WriteWire_open:
  "wire_ret sock env = Some k \<Longrightarrow> 0 < k \<Longrightarrow> buf \<noteq> [] \<Longrightarrow>
   virNetSocketWriteWire sock buf env =
     Some (min k (int (length buf)), None, take (nat (min k (int (length buf)))) buf)"
  using rewrite_after_eintr [of buf "wire_calls sock env"]
  by (auto simp: wire_ret_def virNetSocketWriteWire_def Let_def min_def
           split: if_splits list.splits)

lemma WriteSASL_encode_fails:
  assumes m: "saslSession sock = Some m" and c: "sasl_chunk enc sock buf = None"
  shows "virNetSocketWrite enc sock buf env =
     Some \<lparr>wr_ret = -1, wr_err = Some (CalleeError ''virNetSASLSessionEncode''),
           wr_sock = sock, wr_sent = [], wr_encoded = [take (min m (length buf)) buf]\<rparr>"
  using assms
  by (auto simp: virNetSocketWrite_def virNetSocketWriteSASL_def sasl_chunk_def Let_def
           split: option.splits)

lemma WriteSASL_call:
  assumes m: "saslSession sock = Some m" and c: "sasl_chunk enc sock buf = Some e"
  shows "case virNetSocketWriteWire sock (drop (sasl_offset sock) e) env of
       None \<Rightarrow> virNetSocketWrite enc sock buf env = None
     | Some (ret, err, sent) \<Rightarrow>
         virNetSocketWrite enc sock buf env =
           Some \<lparr>wr_ret = (if ret \<le> 0 then ret
                           else if nat ret < length e - sasl_offset sock then 0
                           else int (min m (length buf))),
                 wr_err = (if ret \<le> 0 then err else None),
                 wr_sock = (if ret \<le> 0
                            then sock\<lparr>saslEncoded := Some e, saslEncodedOffset := sasl_offset sock\<rparr>
                            else if nat ret < length e - sasl_offset sock
                            then sock\<lparr>saslEncoded := Some e,
                                      saslEncodedOffset := sasl_offset sock + nat ret\<rparr>
                            else sock\<lparr>saslEncoded := None, saslEncodedOffset := 0\<rparr>),
                 wr_sent = sent, wr_encoded = fresh_chunks sock buf\<rparr>"
proof (cases "saslEncoded sock")
  case None
  let ?s1 = "sock\<lparr>saslEncoded := Some e, saslEncodedOffset := 0\<rparr>"
  from None c m have e: "enc (take (min m (length buf)) buf) = Some e"
    by (simp add: sasl_chunk_def)
  have w: "virNetSocketWriteWire ?s1 e env = virNetSocketWriteWire sock e env"
    by (rule WriteWire_cong) simp_all
  show ?thesis
  proof (cases "virNetSocketWriteWire sock e env")
    case n: None
    with None e m w show ?thesis
      by (simp add: virNetSocketWrite_def virNetSocketWriteSASL_def sasl_offset_def Let_def)
  next
    case (Some t)
    obtain ret err sent where t: "t = (ret, err, sent)" by (cases t)
    from WriteWire_sent [of sock e env ret err sent] Some t have le: "ret \<le> int (length e)"
      by simp
    from None e m w Some t le show ?thesis
      by (auto simp: virNetSocketWrite_def virNetSocketWriteSASL_def sasl_offset_def
            fresh_chunks_def Let_def)
  qed
next
  case (Some e')
  with c have ee: "e' = e" by (simp add: sasl_chunk_def)
  let ?off = "saslEncodedOffset sock"
  show ?thesis
  proof (cases "virNetSocketWriteWire sock (drop ?off e) env")
    case n: None
    with Some ee m show ?thesis
      by (simp add: virNetSocketWrite_def virNetSocketWriteSASL_def sasl_offset_def Let_def)
  next
    case s: (Some t)
    obtain ret err sent where t: "t = (ret, err, sent)" by (cases t)
    from WriteWire_sent [of sock "drop ?off e" env ret err sent] s t
    have le: "ret \<le> int (length e - ?off)"
      by simp
    from Some ee m s t le show ?thesis
      by (auto simp: virNetSocketWrite_def virNetSocketWriteSASL_def sasl_offset_def
            fresh_chunks_def Let_def)
  qed
qed


lemma wire_ret_cong:
  "sshSession s' = sshSession s \<Longrightarrow> tlsSession s' = tlsSession s \<Longrightarrow> wire_ret s' env = wire_ret s env"
  by (simp add: wire_ret_def wire_calls_def)

lemma blocked_not_open: "wire_blocked sock env \<Longrightarrow> \<not> wire_open sock env"
  by (simp add: wire_blocked_def wire_open_def)

lemma mult_step: "(0::nat) < n \<Longrightarrow> n \<le> b \<Longrightarrow> l \<le> L \<Longrightarrow> l + L * (b - n) \<le> L * b"
proof -
  assume a: "0 < n" "n \<le> b" "l \<le> L"
  then obtain d where b: "b = n + d" by (metis le_Suc_ex)
  from a obtain n' where n: "n = Suc n'" by (cases n) auto
  show ?thesis unfolding b n using a(3) by (simp add: algebra_simps)
qed

lemma WriteSASL_progress_step:
  assumes m: "saslSession sock = Some m" "0 < m"
    and enc: "\<forall>c. c \<noteq> [] \<and> length c \<le> m \<longrightarrow> (\<exists>e. enc c = Some e \<and> e \<noteq> [] \<and> length e \<le> L)"
    and ok: "pending_ok enc L sock buf" and ne: "buf \<noteq> []"
    and w: "wire_blocked sock env \<or> wire_open sock env"
  shows "\<exists>r. virNetSocketWrite enc sock buf env = Some r \<and> 0 \<le> wr_ret r \<and>
           saslSession (wr_sock r) = Some m \<and> sshSession (wr_sock r) = sshSession sock \<and>
           tlsSession (wr_sock r) = tlsSession sock \<and>
           pending_ok enc L (wr_sock r) (drop (nat (wr_ret r)) buf) \<and>
           todo L (wr_sock r) (drop (nat (wr_ret r)) buf) + (if wire_open sock env then 1 else 0)
             \<le> todo L sock buf"
proof -
  let ?n = "min m (length buf)"
  let ?off = "sasl_offset sock"
  from ne m have n0: "0 < ?n" "?n \<le> length buf" by auto
  have "\<exists>e. sasl_chunk enc sock buf = Some e \<and> ?off < length e \<and> length e \<le> L \<and>
            enc (take ?n buf) = Some e"
  proof (cases "saslEncoded sock")
    case None
    from ne m have "take ?n buf \<noteq> [] \<and> length (take ?n buf) \<le> m" by simp
    with enc obtain e where "enc (take ?n buf) = Some e" "e \<noteq> []" "length e \<le> L" by blast
    with None m show ?thesis by (simp add: sasl_chunk_def sasl_offset_def)
  next
    case (Some e)
    with ok m show ?thesis by (simp add: pending_ok_def sasl_chunk_def sasl_offset_def)
  qed
  then obtain e where c: "sasl_chunk enc sock buf = Some e" and off: "?off < length e"
    and eL: "length e \<le> L" and ee: "enc (take ?n buf) = Some e" by blast
  have td: "todo L sock buf = (if saslEncoded sock = None then L * length buf
              else (length e - ?off) + L * (length buf - ?n))"
    using c m by (auto simp: todo_def sasl_chunk_def sasl_offset_def split: option.splits)
  have up: "(length e - ?off) + L * (length buf - ?n) \<le> todo L sock buf"
  proof (cases "saslEncoded sock = None")
    case True
    from mult_step [OF n0 , of "length e - ?off" L] eL td True show ?thesis by simp
  next
    case False
    with td show ?thesis by simp
  qed
  note call = WriteSASL_call [OF m(1) c, of env]
  from w show ?thesis
  proof
    assume b: "wire_blocked sock env"
    from WriteWire_blocked [OF b] call
    have r: "virNetSocketWrite enc sock buf env =
        Some \<lparr>wr_ret = 0, wr_err = None,
              wr_sock = sock\<lparr>saslEncoded := Some e, saslEncodedOffset := ?off\<rparr>,
              wr_sent = [], wr_encoded = fresh_chunks sock buf\<rparr>"
      by simp
    from blocked_not_open [OF b] r m off eL ee ne up show ?thesis
      by (simp add: pending_ok_def todo_def)
  next
    assume o: "wire_open sock env"
    then obtain k where k: "wire_ret sock env = Some k" "0 < k"
      by (auto simp: wire_open_def split: option.splits)
    let ?rem = "drop ?off e"
    from off have rne: "?rem \<noteq> []" by simp
    define ret where "ret = min k (int (length ?rem))"
    from k off have rp: "0 < ret" by (simp add: ret_def)
    have rl: "nat ret \<le> length e - ?off" by (simp add: ret_def)
    from WriteWire_open [OF k rne]
    have ww: "virNetSocketWriteWire sock ?rem env = Some (ret, None, take (nat ret) ?rem)"
      by (simp only: ret_def)
    show ?thesis
    proof (cases "nat ret < length e - ?off")
      case True
      from call ww rp True
      have r: "virNetSocketWrite enc sock buf env =
          Some \<lparr>wr_ret = 0, wr_err = None,
                wr_sock = sock\<lparr>saslEncoded := Some e, saslEncodedOffset := ?off + nat ret\<rparr>,
                wr_sent = take (nat ret) ?rem, wr_encoded = fresh_chunks sock buf\<rparr>"
        by simp
      from rp have "1 \<le> nat ret" by simp
      with True have "length e - (?off + nat ret) + 1 \<le> length e - ?off" by simp
      with up have "length e - (?off + nat ret) + L * (length buf - ?n) + 1 \<le> todo L sock buf"
        by linarith
      with r o m True eL ee ne show ?thesis
        by (simp add: pending_ok_def todo_def)
    next
      case False
      from call ww rp False
      have r: "virNetSocketWrite enc sock buf env =
          Some \<lparr>wr_ret = int ?n, wr_err = None,
                wr_sock = sock\<lparr>saslEncoded := None, saslEncodedOffset := 0\<rparr>,
                wr_sent = take (nat ret) ?rem, wr_encoded = fresh_chunks sock buf\<rparr>"
        by simp
      from off have "1 \<le> length e - ?off" by simp
      with up have "L * (length buf - ?n) + 1 \<le> todo L sock buf" by linarith
      with r o m show ?thesis
        by (simp add: pending_ok_def todo_def)
    qed
  qed
qed

lemma retry_progress:
  assumes enc: "\<forall>c. c \<noteq> [] \<and> length c \<le> m \<longrightarrow> (\<exists>e. enc c = Some e \<and> e \<noteq> [] \<and> length e \<le> L)"
    and m: "0 < m"
  shows "saslSession sock = Some m \<Longrightarrow> pending_ok enc L sock buf \<Longrightarrow>
     \<forall>env\<in>set envs. wire_blocked sock env \<or> wire_open sock env \<Longrightarrow>
     todo L sock buf \<le> length (filter (wire_open sock) envs) \<Longrightarrow>
     \<exists>s' wire chunks rets. retry_write enc sock buf envs = Some (True, s', wire, chunks, rets)"
proof (induction envs arbitrary: sock buf)
  case Nil
  show ?case
  proof (cases buf)
    case Nil
    then show ?thesis by simp
  next
    case (Cons b bs)
    have "0 < todo L sock buf"
    proof (cases "saslEncoded sock")
      case None
      from Cons m have "[b] \<noteq> [] \<and> length [b] \<le> m" by simp
      with enc obtain e where "enc [b] = Some e" "e \<noteq> []" "length e \<le> L" by blast
      then have "0 < L" by (cases e) auto
      with None Cons show ?thesis by (simp add: todo_def)
    next
      case (Some e)
      with Nil.prems(2) show ?thesis by (simp add: pending_ok_def todo_def)
    qed
    with Nil.prems(4) show ?thesis by simp
  qed
next
  case (Cons env envs)
  show ?case
  proof (cases buf)
    case Nil
    then show ?thesis by simp
  next
    case c: (Cons b bs)
    then have ne: "buf \<noteq> []" by simp
    from Cons.prems(3) have w: "wire_blocked sock env \<or> wire_open sock env" by simp
    from WriteSASL_progress_step [OF Cons.prems(1) m enc Cons.prems(2) ne w] obtain r where
      r: "virNetSocketWrite enc sock buf env = Some r" "0 \<le> wr_ret r"
         "saslSession (wr_sock r) = Some m" "sshSession (wr_sock r) = sshSession sock"
         "tlsSession (wr_sock r) = tlsSession sock"
         "pending_ok enc L (wr_sock r) (drop (nat (wr_ret r)) buf)"
         "todo L (wr_sock r) (drop (nat (wr_ret r)) buf) + (if wire_open sock env then 1 else 0)
            \<le> todo L sock buf"
      by blast
    have wc: "wire_ret (wr_sock r) = wire_ret sock"
      using wire_ret_cong [OF r(4) r(5)] by (rule ext)
    then have wo: "wire_open (wr_sock r) = wire_open sock" "wire_blocked (wr_sock r) = wire_blocked sock"
      by (auto simp: wire_open_def wire_blocked_def fun_eq_iff)
    from Cons.prems(3) wo have a: "\<forall>env\<in>set envs. wire_blocked (wr_sock r) env \<or> wire_open (wr_sock r) env"
      by simp
    from Cons.prems(4) r(7) wo
    have l: "todo L (wr_sock r) (drop (nat (wr_ret r)) buf) \<le> length (filter (wire_open (wr_sock r)) envs)"
      by (simp split: if_splits)
    from Cons.IH [OF r(3) r(6) a l] obtain s' wire chunks rets where
      "retry_write enc (wr_sock r) (drop (nat (wr_ret r)) buf) envs = Some (True, s', wire, chunks, rets)"
      by blast
    with r c show ?thesis by simp
  qed
qed


lemma WriteSASL_step:
  assumes m: "saslSession sock = Some m"
    and inv: "same_buffer enc sock buf"
    and r: "virNetSocketWriteSASL enc sock buf env = Some r"
    and ok: "0 \<le> wr_ret r"
  shows "saslSession (wr_sock r) = Some m \<and>
     (if saslEncoded (wr_sock r) \<noteq> None
      then wr_ret r = 0 \<and> same_buffer enc (wr_sock r) buf \<and>
           absorbed (wr_sock r) buf = absorbed sock buf @ wr_encoded r \<and>
           flushed (wr_sock r) = flushed sock @ wr_sent r
      else wr_ret r = int (min m (length buf)) \<and>
           absorbed sock buf @ wr_encoded r = [take (min m (length buf)) buf] \<and>
           enc (take (min m (length buf)) buf) = Some (flushed sock @ wr_sent r))"
proof (cases "saslEncoded sock")
  case None
  show ?thesis
  proof (cases "enc (take (min m (length buf)) buf)")
    case n: None
    with None m r ok show ?thesis
      by (auto simp: virNetSocketWriteSASL_def Let_def)
  next
    case (Some e)
    let ?s1 = "sock\<lparr>saslEncoded := Some e, saslEncodedOffset := 0\<rparr>"
    from None m r Some obtain ret err sent where
      w: "virNetSocketWriteWire ?s1 e env = Some (ret, err, sent)"
      by (auto simp: virNetSocketWriteSASL_def Let_def split: option.splits)
    from WriteWire_sent [OF w] have f: "ret \<le> int (length e)" "sent = take (nat ret) e" "ret \<le> 0 \<longrightarrow> sent = []"
      by auto
    from None m r Some w ok f show ?thesis
      by (auto simp: virNetSocketWriteSASL_def Let_def same_buffer_def absorbed_def flushed_def
               split: if_splits)
  qed
next
  case (Some e)
  let ?off = "saslEncodedOffset sock"
  from inv Some m have e: "enc (take (min m (length buf)) buf) = Some e" "?off \<le> length e"
    by (auto simp: same_buffer_def)
  from Some m r obtain ret err sent where
    w: "virNetSocketWriteWire sock (drop ?off e) env = Some (ret, err, sent)"
    by (auto simp: virNetSocketWriteSASL_def Let_def split: option.splits)
  from WriteWire_sent [OF w] have f: "ret \<le> int (length e - ?off)" "sent = take (nat ret) (drop ?off e)"
     "ret \<le> 0 \<longrightarrow> sent = []"
    by auto
  from Some m r w ok e f show ?thesis
    by (auto simp: virNetSocketWriteSASL_def Let_def same_buffer_def absorbed_def flushed_def
               take_add split: if_splits)
qed

lemma retry_inv:
  "saslSession sock = Some m \<Longrightarrow> same_buffer enc sock buf \<Longrightarrow>
   (saslEncoded sock \<noteq> None \<longrightarrow> buf \<noteq> []) \<Longrightarrow>
   retry_write enc sock buf envs = Some (True, s', wire, chunks, rets) \<Longrightarrow>
   concat (absorbed sock buf @ chunks) = buf \<and>
   flushed sock @ wire = concat (map (\<lambda>c. the (enc c)) (absorbed sock buf @ chunks)) \<and>
   (\<forall>c\<in>set (absorbed sock buf @ chunks). enc c \<noteq> None) \<and>
   saslEncoded s' = None \<and> sum_list rets = int (length buf) \<and>
   filter (\<lambda>x. x \<noteq> 0) rets =
     map (\<lambda>c. int (length c)) (filter (\<lambda>c. c \<noteq> []) (absorbed sock buf @ chunks))"
proof (induction envs arbitrary: sock buf wire chunks rets)
  case Nil
  then show ?case
    by (cases buf) (auto simp: absorbed_def flushed_def)
next
  case (Cons env envs)
  show ?case
  proof (cases buf)
    case Nil
    with Cons.prems show ?thesis
      by (auto simp: absorbed_def flushed_def)
  next
    case (Cons b bs)
    from Cons.prems(4) Cons obtain r where
      w: "virNetSocketWrite enc sock buf env = Some r"
      by (auto split: option.splits)
    with Cons.prems(1) have ws: "virNetSocketWriteSASL enc sock buf env = Some r"
      by (simp add: virNetSocketWrite_def)
    from Cons.prems(4) Cons w have ok: "0 \<le> wr_ret r"
      by (auto split: if_splits)
    from Cons.prems(4) Cons w ok obtain wire' chunks' rets' where
      rec: "retry_write enc (wr_sock r) (drop (nat (wr_ret r)) buf) envs =
              Some (True, s', wire', chunks', rets')"
      and eqs: "wire = wr_sent r @ wire'" "chunks = wr_encoded r @ chunks'" "rets = wr_ret r # rets'"
      by (auto split: option.splits if_splits)
    note st = WriteSASL_step [OF Cons.prems(1) Cons.prems(2) ws ok]
    show ?thesis
    proof (cases "saslEncoded (wr_sock r) \<noteq> None")
      case True
      with st have z: "wr_ret r = 0" and sb: "same_buffer enc (wr_sock r) buf"
        and ab: "absorbed (wr_sock r) buf = absorbed sock buf @ wr_encoded r"
        and fl: "flushed (wr_sock r) = flushed sock @ wr_sent r"
        and mm: "saslSession (wr_sock r) = Some m"
        by auto
      from rec z have rec': "retry_write enc (wr_sock r) buf envs = Some (True, s', wire', chunks', rets')"
        by simp
      from Cons have ne: "saslEncoded (wr_sock r) \<noteq> None \<longrightarrow> buf \<noteq> []" by simp
      from Cons.IH [OF mm sb ne rec'] ab fl eqs z show ?thesis
        by simp
    next
      case False
      let ?n = "min m (length buf)"
      from False st have z: "wr_ret r = int ?n"
        and ab: "absorbed sock buf @ wr_encoded r = [take ?n buf]"
        and fl: "enc (take ?n buf) = Some (flushed sock @ wr_sent r)"
        and mm: "saslSession (wr_sock r) = Some m"
        by auto
      from rec z have rec': "retry_write enc (wr_sock r) (drop ?n buf) envs =
           Some (True, s', wire', chunks', rets')"
        by simp
      from False have sb: "same_buffer enc (wr_sock r) (drop ?n buf)"
        and ne: "saslEncoded (wr_sock r) \<noteq> None \<longrightarrow> drop ?n buf \<noteq> []"
        and a0: "absorbed (wr_sock r) (drop ?n buf) = []"
        and f0: "flushed (wr_sock r) = []"
        by (auto simp: same_buffer_def absorbed_def flushed_def)
      have ch: "absorbed sock buf @ chunks = take ?n buf # chunks'"
        using ab eqs by (metis append_Cons append_Nil append_assoc)
      from Cons.IH [OF mm sb ne rec'] a0 f0
      have ih: "concat chunks' = drop ?n buf" "wire' = concat (map (\<lambda>c. the (enc c)) chunks')"
        "\<forall>c\<in>set chunks'. enc c \<noteq> None" "saslEncoded s' = None"
        "sum_list rets' = int (length (drop ?n buf))"
        "filter (\<lambda>x. x \<noteq> 0) rets' = map (\<lambda>c. int (length c)) (filter (\<lambda>c. c \<noteq> []) chunks')"
        by simp_all
      show ?thesis
        unfolding ch using ih fl eqs(1,3) z by simp
    qed
  qed
qed



lemma pending_no_encode:
  "saslSession sock = Some m \<Longrightarrow> saslEncoded sock \<noteq> None \<Longrightarrow>
   virNetSocketWrite enc sock buf env = Some r \<Longrightarrow>
   wr_encoded r = [] \<and>
   (saslEncoded (wr_sock r) = saslEncoded sock \<or> saslEncoded (wr_sock r) = None)"
  by (auto simp: virNetSocketWrite_def virNetSocketWriteSASL_def Let_def
           split: option.splits if_splits)

lemma WriteSASL_partial:
  assumes m: "saslSession sock = Some m" and c: "sasl_chunk enc sock buf = Some e"
    and k: "wire_ret sock env = Some k" "0 \<le> k" "k < int (length e - sasl_offset sock)"
  shows "virNetSocketWrite enc sock buf env =
     Some \<lparr>wr_ret = 0, wr_err = None,
           wr_sock = sock\<lparr>saslEncoded := Some e, saslEncodedOffset := sasl_offset sock + nat k\<rparr>,
           wr_sent = take (nat k) (drop (sasl_offset sock) e),
           wr_encoded = fresh_chunks sock buf\<rparr>"
proof (cases "k = 0")
  case True
  with k(1) have "wire_blocked sock env" by (simp add: wire_blocked_def)
  from WriteWire_blocked [OF this] WriteSASL_call [OF m c, of env] True show ?thesis
    by simp
next
  case False
  with k(2) have p: "0 < k" by simp
  from p k(3) have ne: "drop (sasl_offset sock) e \<noteq> []" by auto
  from k(3) have mk: "min k (int (length (drop (sasl_offset sock) e))) = k" by simp
  from WriteWire_open [OF k(1) p ne]
  have "virNetSocketWriteWire sock (drop (sasl_offset sock) e) env =
          Some (k, None, take (nat k) (drop (sasl_offset sock) e))"
    unfolding mk .
  moreover from p k(3) have "nat k < length e - sasl_offset sock" by linarith
  ultimately show ?thesis
    using WriteSASL_call [OF m c, of env] p by simp
qed

lemma WriteSASL_complete:
  assumes m: "saslSession sock = Some m" and c: "sasl_chunk enc sock buf = Some e"
    and off: "sasl_offset sock < length e"
    and k: "wire_ret sock env = Some k" "int (length e - sasl_offset sock) \<le> k"
  shows "virNetSocketWrite enc sock buf env =
     Some \<lparr>wr_ret = int (min m (length buf)), wr_err = None,
           wr_sock = sock\<lparr>saslEncoded := None, saslEncodedOffset := 0\<rparr>,
           wr_sent = drop (sasl_offset sock) e,
           wr_encoded = fresh_chunks sock buf\<rparr>"
proof -
  from off k(2) have p: "0 < k" by simp
  from off have ne: "drop (sasl_offset sock) e \<noteq> []" by auto
  from k(2) have mk: "min k (int (length (drop (sasl_offset sock) e))) =
      int (length e - sasl_offset sock)" by simp
  from WriteWire_open [OF k(1) p ne]
  have "virNetSocketWriteWire sock (drop (sasl_offset sock) e) env =
          Some (int (length e - sasl_offset sock), None, drop (sasl_offset sock) e)"
    unfolding mk by simp
  with WriteSASL_call [OF m c, of env] off show ?thesis
    by simp
qed

text \<open>
  Claim C5 as stated fails where it says that the write that completes the
  flush returns the number of plaintext bytes absorbed into the chunk.  The
  first call absorbs the eleven bytes of its buffer into a chunk that the
  blocked wire does not take; the second call is offered a buffer of four
  bytes, flushes the pending chunk completely and returns 4.
\<close>

theorem WriteSASL_other_buffer_counterexample:
  "virNetSocketWrite enc0 (sasl_sock\<lparr>saslSession := Some 16\<rparr>) ''hello world''
     (io_of [(-1, EAGAIN)] None) =
     Some \<lparr>wr_ret = 0, wr_err = None,
           wr_sock = sasl_sock\<lparr>saslSession := Some 16, saslEncoded := Some ''<hello world>''\<rparr>,
           wr_sent = [], wr_encoded = [''hello world'']\<rparr> \<and>
   virNetSocketWrite enc0
     (sasl_sock\<lparr>saslSession := Some 16, saslEncoded := Some ''<hello world>''\<rparr>) ''hell''
     (io_of [(100, EIO)] None) =
     Some \<lparr>wr_ret = 4, wr_err = None, wr_sock = sasl_sock\<lparr>saslSession := Some 16\<rparr>,
           wr_sent = ''<hello world>'', wr_encoded = []\<rparr> \<and>
   length ''hello world'' = 11"
  by (simp add: virNetSocketWrite_def virNetSocketWriteSASL_def virNetSocketWriteWire_def
        wire_calls_def io_of_def enc0_def sasl_sock_def zero_socket_def Let_def)

text \<open>
  Claim C5, amended.  Take a socket with a SASL session, and one call of
  \<^verbatim>\<open>virNetSocketWrite\<close>.  If a chunk has to be encoded and the encoder fails,
  the call returns -1 and nothing is sent.  Otherwise the call offers the wire
  what is left of the chunk, and what it returns is fixed by what the wire
  takes: when the wire takes nothing, the call returns the wire's result, 0
  when it would block, and the chunk stays pending as it was; when the wire
  takes only part of what is left, the call returns 0 without error and the
  chunk stays pending, advanced by what went onto the wire; when the wire takes
  all that is left, nothing is pending afterwards and the call returns the
  size of the front of the buffer offered in this call, the smaller of the
  session's maximum and the buffer's length.  While a chunk is pending nothing
  is handed to the encoder, and the pending chunk is kept or finished, never
  replaced.  For a caller that retries with the same buffer and has got its
  whole buffer accepted, the chunks handed to the encoder are the buffer cut
  into pieces, each encoded once, the wire carries their encodings in order,
  nothing is left pending, the returned counts add up to the length of the
  buffer, and the counts that are not 0 are the lengths of the chunks, in
  order.  And that caller does get there: if the encoder turns every non-empty
  chunk of at most the session's size into at least one and at most \<open>L\<close>
  bytes, and every call finds the wire either blocked or taking at least one
  byte, then as soon as the wire has taken bytes \<open>L\<close> times the length of the
  buffer, the buffer has been sent.
\<close>

theorem virNetSocketWrite_sasl_retry:
  assumes "saslSession sock = Some m"
  shows
   "(sasl_chunk enc sock buf = None \<longrightarrow>
       virNetSocketWrite enc sock buf env =
         Some \<lparr>wr_ret = -1, wr_err = Some (CalleeError ''virNetSASLSessionEncode''),
               wr_sock = sock, wr_sent = [], wr_encoded = [take (min m (length buf)) buf]\<rparr>) \<and>
    (\<forall>e. sasl_chunk enc sock buf = Some e \<longrightarrow>
       (case virNetSocketWriteWire sock (drop (sasl_offset sock) e) env of
          None \<Rightarrow> virNetSocketWrite enc sock buf env = None
        | Some (ret, err, sent) \<Rightarrow>
            virNetSocketWrite enc sock buf env =
              Some \<lparr>wr_ret = (if ret \<le> 0 then ret
                              else if nat ret < length e - sasl_offset sock then 0
                              else int (min m (length buf))),
                    wr_err = (if ret \<le> 0 then err else None),
                    wr_sock = (if ret \<le> 0
                               then sock\<lparr>saslEncoded := Some e,
                                         saslEncodedOffset := sasl_offset sock\<rparr>
                               else if nat ret < length e - sasl_offset sock
                               then sock\<lparr>saslEncoded := Some e,
                                         saslEncodedOffset := sasl_offset sock + nat ret\<rparr>
                               else sock\<lparr>saslEncoded := None, saslEncodedOffset := 0\<rparr>),
                    wr_sent = sent, wr_encoded = fresh_chunks sock buf\<rparr>)) \<and>
    (\<forall>e k. sasl_chunk enc sock buf = Some e \<and> wire_ret sock env = Some k \<and> 0 \<le> k \<and>
          k < int (length e - sasl_offset sock) \<longrightarrow>
       virNetSocketWrite enc sock buf env =
         Some \<lparr>wr_ret = 0, wr_err = None,
               wr_sock = sock\<lparr>saslEncoded := Some e,
                              saslEncodedOffset := sasl_offset sock + nat k\<rparr>,
               wr_sent = take (nat k) (drop (sasl_offset sock) e),
               wr_encoded = fresh_chunks sock buf\<rparr>) \<and>
    (\<forall>e k. sasl_chunk enc sock buf = Some e \<and> sasl_offset sock < length e \<and>
          wire_ret sock env = Some k \<and> int (length e - sasl_offset sock) \<le> k \<longrightarrow>
       virNetSocketWrite enc sock buf env =
         Some \<lparr>wr_ret = int (min m (length buf)), wr_err = None,
               wr_sock = sock\<lparr>saslEncoded := None, saslEncodedOffset := 0\<rparr>,
               wr_sent = drop (sasl_offset sock) e,
               wr_encoded = fresh_chunks sock buf\<rparr>) \<and>
    (\<forall>r. saslEncoded sock \<noteq> None \<and> virNetSocketWrite enc sock buf env = Some r \<longrightarrow>
       wr_encoded r = [] \<and>
       (saslEncoded (wr_sock r) = saslEncoded sock \<or> saslEncoded (wr_sock r) = None)) \<and>
    (\<forall>envs s' wire chunks rets.
       same_buffer enc sock buf \<and> (saslEncoded sock \<noteq> None \<longrightarrow> buf \<noteq> []) \<and>
       retry_write enc sock buf envs = Some (True, s', wire, chunks, rets) \<longrightarrow>
       concat (absorbed sock buf @ chunks) = buf \<and>
       flushed sock @ wire = concat (map (\<lambda>c. the (enc c)) (absorbed sock buf @ chunks)) \<and>
       (\<forall>c\<in>set (absorbed sock buf @ chunks). enc c \<noteq> None) \<and>
       saslEncoded s' = None \<and> sum_list rets = int (length buf) \<and>
       filter (\<lambda>x. x \<noteq> 0) rets =
         map (\<lambda>c. int (length c)) (filter (\<lambda>c. c \<noteq> []) (absorbed sock buf @ chunks))) \<and>
    (\<forall>L envs.
       0 < m \<and> saslEncoded sock = None \<and>
       (\<forall>c. c \<noteq> [] \<and> length c \<le> m \<longrightarrow> (\<exists>e. enc c = Some e \<and> e \<noteq> [] \<and> length e \<le> L)) \<and>
       (\<forall>env\<in>set envs. wire_blocked sock env \<or> wire_open sock env) \<and>
       L * length buf \<le> length (filter (wire_open sock) envs) \<longrightarrow>
       (\<exists>s' wire chunks rets.
          retry_write enc sock buf envs = Some (True, s', wire, chunks, rets)))"
proof -
  note m = assms
  have a: "sasl_chunk enc sock buf = None \<longrightarrow>
       virNetSocketWrite enc sock buf env =
         Some \<lparr>wr_ret = -1, wr_err = Some (CalleeError ''virNetSASLSessionEncode''),
               wr_sock = sock, wr_sent = [], wr_encoded = [take (min m (length buf)) buf]\<rparr>"
    using WriteSASL_encode_fails [OF m] by blast
  have b: "\<forall>e. sasl_chunk enc sock buf = Some e \<longrightarrow>
       (case virNetSocketWriteWire sock (drop (sasl_offset sock) e) env of
          None \<Rightarrow> virNetSocketWrite enc sock buf env = None
        | Some (ret, err, sent) \<Rightarrow>
            virNetSocketWrite enc sock buf env =
              Some \<lparr>wr_ret = (if ret \<le> 0 then ret
                              else if nat ret < length e - sasl_offset sock then 0
                              else int (min m (length buf))),
                    wr_err = (if ret \<le> 0 then err else None),
                    wr_sock = (if ret \<le> 0
                               then sock\<lparr>saslEncoded := Some e,
                                         saslEncodedOffset := sasl_offset sock\<rparr>
                               else if nat ret < length e - sasl_offset sock
                               then sock\<lparr>saslEncoded := Some e,
                                         saslEncodedOffset := sasl_offset sock + nat ret\<rparr>
                               else sock\<lparr>saslEncoded := None, saslEncodedOffset := 0\<rparr>),
                    wr_sent = sent, wr_encoded = fresh_chunks sock buf\<rparr>)"
    using WriteSASL_call [OF m] by blast
  have c: "\<forall>e k. sasl_chunk enc sock buf = Some e \<and> wire_ret sock env = Some k \<and> 0 \<le> k \<and>
          k < int (length e - sasl_offset sock) \<longrightarrow>
       virNetSocketWrite enc sock buf env =
         Some \<lparr>wr_ret = 0, wr_err = None,
               wr_sock = sock\<lparr>saslEncoded := Some e,
                              saslEncodedOffset := sasl_offset sock + nat k\<rparr>,
               wr_sent = take (nat k) (drop (sasl_offset sock) e),
               wr_encoded = fresh_chunks sock buf\<rparr>"
    using WriteSASL_partial [OF m] by blast
  have d: "\<forall>e k. sasl_chunk enc sock buf = Some e \<and> sasl_offset sock < length e \<and>
          wire_ret sock env = Some k \<and> int (length e - sasl_offset sock) \<le> k \<longrightarrow>
       virNetSocketWrite enc sock buf env =
         Some \<lparr>wr_ret = int (min m (length buf)), wr_err = None,
               wr_sock = sock\<lparr>saslEncoded := None, saslEncodedOffset := 0\<rparr>,
               wr_sent = drop (sasl_offset sock) e,
               wr_encoded = fresh_chunks sock buf\<rparr>"
    using WriteSASL_complete [OF m] by blast
  have e: "\<forall>r. saslEncoded sock \<noteq> None \<and> virNetSocketWrite enc sock buf env = Some r \<longrightarrow>
       wr_encoded r = [] \<and>
       (saslEncoded (wr_sock r) = saslEncoded sock \<or> saslEncoded (wr_sock r) = None)"
  proof (intro allI impI)
    fix r
    assume h: "saslEncoded sock \<noteq> None \<and> virNetSocketWrite enc sock buf env = Some r"
    then have h1: "saslEncoded sock \<noteq> None" and h2: "virNetSocketWrite enc sock buf env = Some r"
      by simp_all
    from pending_no_encode [OF m h1 h2]
    show "wr_encoded r = [] \<and>
       (saslEncoded (wr_sock r) = saslEncoded sock \<or> saslEncoded (wr_sock r) = None)" .
  qed
  have f: "\<forall>envs s' wire chunks rets.
       same_buffer enc sock buf \<and> (saslEncoded sock \<noteq> None \<longrightarrow> buf \<noteq> []) \<and>
       retry_write enc sock buf envs = Some (True, s', wire, chunks, rets) \<longrightarrow>
       concat (absorbed sock buf @ chunks) = buf \<and>
       flushed sock @ wire = concat (map (\<lambda>c. the (enc c)) (absorbed sock buf @ chunks)) \<and>
       (\<forall>c\<in>set (absorbed sock buf @ chunks). enc c \<noteq> None) \<and>
       saslEncoded s' = None \<and> sum_list rets = int (length buf) \<and>
       filter (\<lambda>x. x \<noteq> 0) rets =
         map (\<lambda>c. int (length c)) (filter (\<lambda>c. c \<noteq> []) (absorbed sock buf @ chunks))"
    using retry_inv [OF m] by blast
  have g: "\<forall>L envs.
       0 < m \<and> saslEncoded sock = None \<and>
       (\<forall>c. c \<noteq> [] \<and> length c \<le> m \<longrightarrow> (\<exists>e. enc c = Some e \<and> e \<noteq> [] \<and> length e \<le> L)) \<and>
       (\<forall>env\<in>set envs. wire_blocked sock env \<or> wire_open sock env) \<and>
       L * length buf \<le> length (filter (wire_open sock) envs) \<longrightarrow>
       (\<exists>s' wire chunks rets.
          retry_write enc sock buf envs = Some (True, s', wire, chunks, rets))"
  proof (intro allI impI)
    fix L envs
    assume h: "0 < m \<and> saslEncoded sock = None \<and>
       (\<forall>c. c \<noteq> [] \<and> length c \<le> m \<longrightarrow> (\<exists>e. enc c = Some e \<and> e \<noteq> [] \<and> length e \<le> L)) \<and>
       (\<forall>env\<in>set envs. wire_blocked sock env \<or> wire_open sock env) \<and>
       L * length buf \<le> length (filter (wire_open sock) envs)"
    then have p: "pending_ok enc L sock buf" and t: "todo L sock buf = L * length buf"
      by (simp_all add: pending_ok_def todo_def)
    from h have en: "\<forall>c. c \<noteq> [] \<and> length c \<le> m \<longrightarrow> (\<exists>e. enc c = Some e \<and> e \<noteq> [] \<and> length e \<le> L)"
      and m0: "0 < m"
      and w: "\<forall>env\<in>set envs. wire_blocked sock env \<or> wire_open sock env"
      and l: "L * length buf \<le> length (filter (wire_open sock) envs)"
      by simp_all
    from l t have l': "todo L sock buf \<le> length (filter (wire_open sock) envs)" by simp
    from retry_progress [OF en m0 m p w l']
    show "\<exists>s' wire chunks rets. retry_write enc sock buf envs = Some (True, s', wire, chunks, rets)" .
  qed
  from a b c d e f g show ?thesis by blast
qed


theorem virNetSocketWrite_sasl_retry_witness:
  "virNetSocketWrite enc0 sasl_sock ''hello!'' (io_of [(3, EIO)] None) =
     Some \<lparr>wr_ret = 0, wr_err = None,
           wr_sock = sasl_sock\<lparr>saslEncoded := Some ''<hell>'', saslEncodedOffset := 3\<rparr>,
           wr_sent = ''<he'', wr_encoded = [''hell'']\<rparr> \<and>
   retry_write enc0 sasl_sock ''hello!'' envs0 =
     Some (True, sasl_sock, ''<hell><o!>'', [''hell'', ''o!''], [0, 0, 4, 2]) \<and>
   concat [''hell'', ''o!''] = ''hello!'' \<and>
   ''<hell><o!>'' = concat (map (\<lambda>c. the (enc0 c)) [''hell'', ''o!'']) \<and>
   sum_list [0, 0, 4, 2] = int (length ''hello!'') \<and>
   (\<exists>s' wire chunks rets.
      retry_write enc0 sasl_sock ''hey'' envs1 = Some (True, s', wire, chunks, rets))"
proof -
  have m: "saslSession sasl_sock = Some 4"
    by (simp add: sasl_sock_def)
  have f: "saslEncoded sasl_sock = None"
    by (simp add: sasl_sock_def zero_socket_def)
  have o: "sasl_offset sasl_sock = 0"
    by (simp add: sasl_offset_def f)
  have c: "sasl_chunk enc0 sasl_sock ''hello!'' = Some ''<hell>''"
    by (simp add: sasl_chunk_def f m enc0_def)
  have k: "wire_ret sasl_sock (io_of [(3, EIO)] None) = Some 3"
    by (simp add: wire_ret_def after_eintr_def wire_calls_def io_of_def sasl_sock_def
          zero_socket_def)
  have fc: "fresh_chunks sasl_sock ''hello!'' = [''hell'']"
    by (simp add: fresh_chunks_def f m)
  have h: "sasl_chunk enc0 sasl_sock ''hello!'' = Some ''<hell>'' \<and>
           wire_ret sasl_sock (io_of [(3, EIO)] None) = Some 3 \<and> (0::int) \<le> 3 \<and>
           3 < int (length ''<hell>'' - sasl_offset sasl_sock)"
    using c k o by simp
  have "virNetSocketWrite enc0 sasl_sock ''hello!'' (io_of [(3, EIO)] None) =
     Some \<lparr>wr_ret = 0, wr_err = None,
           wr_sock = sasl_sock\<lparr>saslEncoded := Some ''<hell>'',
                               saslEncodedOffset := sasl_offset sasl_sock + nat 3\<rparr>,
           wr_sent = take (nat 3) (drop (sasl_offset sasl_sock) ''<hell>''),
           wr_encoded = fresh_chunks sasl_sock ''hello!''\<rparr>"
    by (rule virNetSocketWrite_sasl_retry [OF m, THEN conjunct2, THEN conjunct2, THEN conjunct1,
          rule_format, OF h])
  then have 0: "virNetSocketWrite enc0 sasl_sock ''hello!'' (io_of [(3, EIO)] None) =
     Some \<lparr>wr_ret = 0, wr_err = None,
           wr_sock = sasl_sock\<lparr>saslEncoded := Some ''<hell>'', saslEncodedOffset := 3\<rparr>,
           wr_sent = ''<he'', wr_encoded = [''hell'']\<rparr>"
    unfolding o fc by simp
  have sb: "same_buffer enc0 sasl_sock ''hello!'' \<and> (saslEncoded sasl_sock \<noteq> None \<longrightarrow> ''hello!'' \<noteq> [])"
    by (simp add: same_buffer_def f)
  have z: "absorbed sasl_sock ''hello!'' = []" "flushed sasl_sock = []"
    by (simp_all add: absorbed_def flushed_def f)
  have run: "retry_write enc0 sasl_sock ''hello!'' envs0 =
      Some (True, sasl_sock, ''<hell><o!>'', [''hell'', ''o!''], [0, 0, 4, 2])"
    by (simp add: envs0_def enc0_def sasl_sock_def zero_socket_def io_of_def
        virNetSocketWrite_def virNetSocketWriteSASL_def virNetSocketWriteWire_def
        wire_calls_def Let_def)
  from virNetSocketWrite_sasl_retry [OF m, where enc = enc0 and buf = "''hello!''",
         THEN conjunct2, THEN conjunct2, THEN conjunct2, THEN conjunct2, THEN conjunct2,
         THEN conjunct1] sb run
  have "concat (absorbed sasl_sock ''hello!'' @ [''hell'', ''o!'']) = ''hello!'' \<and>
      flushed sasl_sock @ ''<hell><o!>'' =
        concat (map (\<lambda>c. the (enc0 c)) (absorbed sasl_sock ''hello!'' @ [''hell'', ''o!''])) \<and>
      sum_list [0, 0, 4, 2] = int (length ''hello!'')"
    by blast
  then have 1: "concat [''hell'', ''o!''] = ''hello!'' \<and>
      ''<hell><o!>'' = concat (map (\<lambda>c. the (enc0 c)) [''hell'', ''o!'']) \<and>
      sum_list [0, 0, 4, 2] = int (length ''hello!'')"
    unfolding z by simp
  have e: "\<forall>c. c \<noteq> [] \<and> length c \<le> 4 \<longrightarrow> (\<exists>e. enc0 c = Some e \<and> e \<noteq> [] \<and> length e \<le> 6)"
    by (simp add: enc0_def)
  have b1: "wire_blocked sasl_sock (io_of [(-1, EINTR), (-1, EAGAIN)] None)"
    by (simp add: wire_blocked_def wire_ret_def after_eintr_def wire_calls_def io_of_def
          sasl_sock_def zero_socket_def)
  have o1: "wire_open sasl_sock (io_of [(2, EIO)] None)"
    by (simp add: wire_open_def wire_ret_def after_eintr_def wire_calls_def io_of_def
          sasl_sock_def zero_socket_def)
  have a: "\<forall>env\<in>set envs1. wire_blocked sasl_sock env \<or> wire_open sasl_sock env"
    using b1 o1 by (simp add: envs1_def)
  have l: "6 * length ''hey'' \<le> length (filter (wire_open sasl_sock) envs1)"
    using o1 by (simp add: envs1_def)
  have run1: "\<exists>s' wire chunks rets.
      retry_write enc0 sasl_sock ''hey'' envs1 = Some (True, s', wire, chunks, rets)"
  proof (rule virNetSocketWrite_sasl_retry [OF m, where enc = enc0 and buf = "''hey''",
           THEN conjunct2, THEN conjunct2, THEN conjunct2,
           THEN conjunct2, THEN conjunct2, THEN conjunct2, rule_format, of 6 envs1])
    show "0 < (4::nat) \<and> saslEncoded sasl_sock = None \<and>
      (\<forall>c. c \<noteq> [] \<and> length c \<le> 4 \<longrightarrow> (\<exists>e. enc0 c = Some e \<and> e \<noteq> [] \<and> length e \<le> 6)) \<and>
      (\<forall>env\<in>set envs1. wire_blocked sasl_sock env \<or> wire_open sasl_sock env) \<and>
      6 * length ''hey'' \<le> length (filter (wire_open sasl_sock) envs1)"
      by (intro conjI, simp, rule f, rule e, rule a, rule l)
  qed
  from 0 run 1 run1 show ?thesis by blast
qed

section \<open>Properties: saving a socket for exec-restart\<close>

text \<open>
  Claim C7 as stated fails: the serialization of a socket whose SSH session
  holds buffered data succeeds and produces a document.
\<close>

theorem PreExecRestart_ssh_counterexample:
  "sshSession ssh_sock = Some ''buffered'' \<and>
   fst (virNetSocketPreExecRestart ssh_sock restart_ok os0) =
     Inr (JObject [(''fd'', JInt 7), (''errfd'', JInt (-1)), (''pid'', JInt 0),
                   (''isClient'', JBool True)])"
  by (simp add: virNetSocketPreExecRestart_def ssh_sock_def restart_ok_def zero_socket_def
        socket_doc_def Let_def)

text \<open>
  Claim C7, amended.  Saving a socket fails with an invalid-operation error,
  leaving the process state as it was, whenever a SASL or a TLS session is
  present; the SSH session is not looked at and never prevents it.  When it
  succeeds, neither of the two sessions is present, the document has exactly
  the keys \<^verbatim>\<open>fd\<close>, \<^verbatim>\<open>errfd\<close>, \<^verbatim>\<open>pid\<close> and \<^verbatim>\<open>isClient\<close> with the socket's values,
  close-on-exec is cleared on the descriptor, and on the error descriptor when
  it is not -1, and no other flag has changed.
\<close>

theorem virNetSocketPreExecRestart_amended:
  "(saslSession sock \<noteq> None \<or> tlsSession sock \<noteq> None \<longrightarrow>
      (\<exists>m. virNetSocketPreExecRestart sock env os = (Inl (OperationInvalid m), os))) \<and>
   virNetSocketPreExecRestart (sock\<lparr>sshSession := x\<rparr>) env os =
      virNetSocketPreExecRestart sock env os \<and>
   (\<forall>doc os'. virNetSocketPreExecRestart sock env os = (Inr doc, os') \<longrightarrow>
      saslSession sock = None \<and> tlsSession sock = None \<and>
      doc = JObject [(''fd'', JInt (fd sock)), (''errfd'', JInt (errfd sock)),
                     (''pid'', JInt (pid sock)), (''isClient'', JBool (client sock))] \<and>
      \<not> cloexec os' (fd sock) \<and>
      (errfd sock \<noteq> -1 \<longrightarrow> \<not> cloexec os' (errfd sock)) \<and>
      (\<forall>d. d \<noteq> fd sock \<and> d \<noteq> errfd sock \<longrightarrow> cloexec os' d = cloexec os d) \<and>
      (errfd sock = -1 \<and> fd sock \<noteq> -1 \<longrightarrow> cloexec os' (-1) = cloexec os (-1)) \<and>
      closed os' = closed os \<and> nonblock os' = nonblock os)"
  by (auto simp: virNetSocketPreExecRestart_def socket_doc_def Let_def
           split: if_splits option.splits)

theorem virNetSocketPreExecRestart_amended_witness:
  "(\<exists>m. virNetSocketPreExecRestart (zero_socket\<lparr>fd := 7, errfd := 8, tlsSession := Some HANDSHAKE_COMPLETE\<rparr>)
           restart_ok (os0\<lparr>cloexec := (\<lambda>_. True)\<rparr>) = (Inl (OperationInvalid m), os0\<lparr>cloexec := (\<lambda>_. True)\<rparr>)) \<and>
   (\<exists>os'. virNetSocketPreExecRestart (zero_socket\<lparr>fd := 7, errfd := 8\<rparr>) restart_ok
            (os0\<lparr>cloexec := (\<lambda>_. True)\<rparr>) =
          (Inr (JObject [(''fd'', JInt 7), (''errfd'', JInt 8), (''pid'', JInt 0),
                         (''isClient'', JBool False)]), os') \<and>
          \<not> cloexec os' 7 \<and> \<not> cloexec os' 8 \<and> cloexec os' 9)"
proof -
  let ?os = "os0\<lparr>cloexec := (\<lambda>_. True)\<rparr>"
  let ?t = "zero_socket\<lparr>fd := 7, errfd := 8, tlsSession := Some HANDSHAKE_COMPLETE\<rparr>"
  let ?p = "zero_socket\<lparr>fd := 7, errfd := 8\<rparr>"
  have t: "saslSession ?t \<noteq> None \<or> tlsSession ?t \<noteq> None"
    by simp
  have f: "fd ?p = 7 \<and> errfd ?p = 8 \<and> pid ?p = 0 \<and> client ?p = False \<and> cloexec ?os 9"
    by (simp add: zero_socket_def)
  have r: "\<exists>doc os'. virNetSocketPreExecRestart ?p restart_ok ?os = (Inr doc, os')"
    by (simp add: virNetSocketPreExecRestart_def restart_ok_def zero_socket_def Let_def)
  from t virNetSocketPreExecRestart_amended [where sock = ?t and env = restart_ok and os = ?os]
  have 1: "\<exists>m. virNetSocketPreExecRestart ?t restart_ok ?os = (Inl (OperationInvalid m), ?os)"
    by blast
  from r obtain doc os' where
    d: "virNetSocketPreExecRestart ?p restart_ok ?os = (Inr doc, os')"
    by blast
  from d f virNetSocketPreExecRestart_amended [where sock = ?p and env = restart_ok and os = ?os]
  have 2: "doc = JObject [(''fd'', JInt 7), (''errfd'', JInt 8), (''pid'', JInt 0),
                         (''isClient'', JBool False)] \<and>
          \<not> cloexec os' 7 \<and> \<not> cloexec os' 8 \<and> cloexec os' 9"
    by auto
  from 1 d 2 show ?thesis by blast
qed

section \<open>Properties: listening on the resolved addresses\<close>

















section \<open>Properties of the server\<close>




text \<open>
  Claim C3.  When the number of live Connections has reached \<^verbatim>\<open>nclients_max\<close>,
  \<^verbatim>\<open>virNetServerAddClient\<close> returns -1 with the ``Too many active clients''
  error and changes nothing at all.  The accept callback then closes the new
  Connection's transport and drops its only reference, so that it is disposed
  of: it returns -1 with that error, the server (its Connection collection
  included) and every other object are as before, and the rejected Connection
  has never been initialised, has no dispatcher and no keepalive installed.
\<close>

theorem virNetServerAddClient_capacity:
  assumes "nclients_max (srv w) \<le> length (clients (srv w))"
  shows "(\<forall>a. virNetServerAddClient env a w =
            (-1, Some (RPCError ''Too many active clients (%zu), dropping connection from %s''), w)) \<and>
         (\<forall>a addr. client_new env = Some (a, addr) \<longrightarrow>
            (\<exists>w'. virNetServerDispatchNewClient env w =
               (-1, Some (RPCError ''Too many active clients (%zu), dropping connection from %s''), w') \<and>
               srv w' = srv w \<and> prog_objs w' = prog_objs w \<and>
               (\<forall>b. b \<noteq> a \<longrightarrow> client_objs w' b = client_objs w b) \<and>
               c_closed (client_objs w' a) \<and> c_refs (client_objs w' a) = 0 \<and>
               c_disposed (client_objs w' a) \<and> \<not> c_init (client_objs w' a) \<and>
               \<not> c_dispatcher (client_objs w' a) \<and> c_keepalive (client_objs w' a) = None \<and>
               c_tx (client_objs w' a) = []))"
  using assms
  by (auto simp: virNetServerAddClient_def virNetServerDispatchNewClient_def
        virNetServerClientClose_def unref_client_def new_client_def Let_def)

theorem virNetServerAddClient_capacity_witness:
  "\<exists>w'. virNetServerDispatchNewClient srv_ok (world0 full_server) =
      (-1, Some (RPCError ''Too many active clients (%zu), dropping connection from %s''), w') \<and>
      clients (srv w') = [0, 1] \<and> c_closed (client_objs w' 5) \<and> c_refs (client_objs w' 5) = 0 \<and>
      \<not> c_dispatcher (client_objs w' 5) \<and> c_keepalive (client_objs w' 5) = None"
proof -
  have h: "nclients_max (srv (world0 full_server)) \<le> length (clients (srv (world0 full_server)))"
    by (simp add: world0_def full_server_def)
  have n: "client_new srv_ok = Some (5, ''127.0.0.1;40000'')"
    by (simp add: srv_ok_def)
  have c: "clients (srv (world0 full_server)) = [0, 1]"
    by (simp add: world0_def full_server_def)
  from virNetServerAddClient_capacity [OF h, where env = srv_ok] n c show ?thesis
    by force
qed

lemma ProcessMsg_refs:
  "virNetServerProcessMsg env a prog m w = (r, w') \<Longrightarrow>
   srv w' = srv w \<and> prog_objs w' = prog_objs w \<and>
   (\<forall>b. c_refs (client_objs w' b) = c_refs (client_objs w b))"
  by (auto simp: virNetServerProcessMsg_def virNetServerProgramUnknownError_def
        virNetServerClientSendMessage_def virNetServerProgramDispatch_def push_tx_def
        VIR_INFO_def split: if_splits option.splits)

lemma HandleJob_steps:
  "virNetServerHandleJob_steps env job v \<noteq> [] \<and>
   hd (virNetServerHandleJob_steps env job v) =
     snd (virNetServerProcessMsg env (job_client job) (job_prog job) (job_msg job) v) \<and>
   (\<forall>x\<in>set (butlast (virNetServerHandleJob_steps env job v)).
      c_refs (client_objs x (job_client job)) = c_refs (client_objs v (job_client job))) \<and>
   (\<forall>p. p_refs (prog_objs (hd (virNetServerHandleJob_steps env job v)) p) =
        p_refs (prog_objs v p)) \<and>
   c_refs (client_objs (last (virNetServerHandleJob_steps env job v)) (job_client job)) =
     c_refs (client_objs v (job_client job)) - 1 \<and>
   (\<forall>p. p_refs (prog_objs (last (virNetServerHandleJob_steps env job v)) p) =
        p_refs (prog_objs v p) - (if job_prog job = Some p then 1 else 0))"
proof (cases "virNetServerProcessMsg env (job_client job) (job_prog job) (job_msg job) v")
  case (Pair r v1)
  from ProcessMsg_refs [OF Pair] Pair show ?thesis
    by (cases "job_prog job")
       (auto simp: virNetServerHandleJob_steps_def unref_client_def unref_prog_def
          virNetServerClientClose_def Let_def)
qed

text \<open>
  Claim C4 as stated fails: a successful dispatch to the pool leaves the
  reference count of the Connection where it was; the job only stores the
  pointer.
\<close>

theorem DispatchNewMessage_client_ref_counterexample:
  "workers (srv (world0 server0)) \<noteq> None \<and>
   fst (virNetServerDispatchNewMessage srv_ok 0 known_call (world0 server0)) = 0 \<and>
   map (\<lambda>j. job_client (snd j))
     (jobList (the (workers (srv (snd (snd
        (virNetServerDispatchNewMessage srv_ok 0 known_call (world0 server0)))))))) = [0] \<and>
   c_refs (client_objs (world0 server0) 0) = 1 \<and>
   c_refs (client_objs (snd (snd
        (virNetServerDispatchNewMessage srv_ok 0 known_call (world0 server0)))) 0) = 1"
  by (simp add: virNetServerDispatchNewMessage_def world0_def server0_def srv_ok_def
        known_call_def prog0_def new_client_def ref_prog_def enqueue_def Let_def)

text \<open>
  Claim C4, amended.  With a worker pool, \<^verbatim>\<open>virNetServerDispatchNewMessage\<close>
  always returns and never changes a Connection object: it takes no
  reference to the Connection, the job only stores its address.  When no job
  can be allocated or the pool refuses the job it returns -1 with an error,
  the server is unchanged and every Program has the reference count it had
  before.  Otherwise it returns 0 without error, the job for the Connection,
  the frame and the matched Program is the last of the pool's list, with the
  Program's priority for the procedure (0 if none matched), and the matched
  Program, if any, has one reference more.  That reference is held for as long
  as the job is queued and executed: \<^verbatim>\<open>virNetServerHandleJob\<close> processes the
  frame first, in the world it is started in, and the reference counts of all
  Connections and Programs are still the same when processing is over; only
  then does it release one reference to the job's Program and, as its last
  step, one to the job's Connection, on both of its paths.
\<close>

theorem virNetServerDispatchNewMessage_refs:
  "(workers (srv w) = Some pool \<longrightarrow>
     (\<exists>r err w'. virNetServerDispatchNewMessage env a m w = (r, err, w') \<and>
        client_objs w' = client_objs w \<and> info_log w' = info_log w \<and>
        (if job_alloc_fails env \<or> sendjob_fails env
         then r = -1 \<and> err \<noteq> None \<and> srv w' = srv w \<and>
              (\<forall>p. p_refs (prog_objs w' p) = p_refs (prog_objs w p))
         else r = 0 \<and> err = None \<and>
              workers (srv w') = Some (pool\<lparr>jobList := jobList pool @
                [(case find (\<lambda>p. p_matches (prog_objs w p) m) (programs (srv w)) of
                    Some p \<Rightarrow> p_priority (prog_objs w p) (h_proc (header m)) | None \<Rightarrow> 0,
                  \<lparr>job_client = a, job_msg = m,
                   job_prog = find (\<lambda>p. p_matches (prog_objs w p) m) (programs (srv w))\<rparr>)]\<rparr>) \<and>
              (\<forall>p. p_refs (prog_objs w' p) = p_refs (prog_objs w p) +
                 (if find (\<lambda>p. p_matches (prog_objs w p) m) (programs (srv w)) = Some p
                  then 1 else 0))))) \<and>
   virNetServerHandleJob env job v = last (virNetServerHandleJob_steps env job v) \<and>
   virNetServerHandleJob_steps env job v \<noteq> [] \<and>
   hd (virNetServerHandleJob_steps env job v) =
     snd (virNetServerProcessMsg env (job_client job) (job_prog job) (job_msg job) v) \<and>
   (\<forall>x\<in>set (butlast (virNetServerHandleJob_steps env job v)).
      c_refs (client_objs x (job_client job)) = c_refs (client_objs v (job_client job))) \<and>
   (\<forall>p. p_refs (prog_objs (hd (virNetServerHandleJob_steps env job v)) p) =
        p_refs (prog_objs v p)) \<and>
   c_refs (client_objs (virNetServerHandleJob env job v) (job_client job)) =
     c_refs (client_objs v (job_client job)) - 1 \<and>
   (\<forall>p. p_refs (prog_objs (virNetServerHandleJob env job v) p) =
        p_refs (prog_objs v p) - (if job_prog job = Some p then 1 else 0))"
proof -
  let ?prog = "find (\<lambda>p. p_matches (prog_objs w p) m) (programs (srv w))"
  have d: "workers (srv w) = Some pool \<longrightarrow>
     (\<exists>r err w'. virNetServerDispatchNewMessage env a m w = (r, err, w') \<and>
        client_objs w' = client_objs w \<and> info_log w' = info_log w \<and>
        (if job_alloc_fails env \<or> sendjob_fails env
         then r = -1 \<and> err \<noteq> None \<and> srv w' = srv w \<and>
              (\<forall>p. p_refs (prog_objs w' p) = p_refs (prog_objs w p))
         else r = 0 \<and> err = None \<and>
              workers (srv w') = Some (pool\<lparr>jobList := jobList pool @
                [(case ?prog of
                    Some p \<Rightarrow> p_priority (prog_objs w p) (h_proc (header m)) | None \<Rightarrow> 0,
                  \<lparr>job_client = a, job_msg = m, job_prog = ?prog\<rparr>)]\<rparr>) \<and>
              (\<forall>p. p_refs (prog_objs w' p) = p_refs (prog_objs w p) +
                 (if ?prog = Some p then 1 else 0))))"
    by (cases ?prog)
       (auto simp: virNetServerDispatchNewMessage_def ref_prog_def unref_prog_def enqueue_def
          Let_def)
  from d HandleJob_steps [of env job v] show ?thesis
    unfolding virNetServerHandleJob_def by blast
qed

theorem virNetServerDispatchNewMessage_refs_witness:
  "(\<exists>err w'. virNetServerDispatchNewMessage (srv_ok\<lparr>sendjob_fails := True\<rparr>) 0 known_call
        (world0 server0) = (-1, err, w') \<and>
      c_refs (client_objs w' 0) = 1 \<and> p_refs (prog_objs w' 0) = 1) \<and>
   (\<exists>err w'. virNetServerDispatchNewMessage srv_ok 0 known_call (world0 server0) = (0, err, w') \<and>
      c_refs (client_objs w' 0) = 1 \<and> p_refs (prog_objs w' 0) = 2) \<and>
   c_refs (client_objs (virNetServerHandleJob srv_ok
      \<lparr>job_client = 0, job_msg = known_call, job_prog = Some 0\<rparr> (world0 server0)) 0) = 0"
proof -
  let ?pool = "\<lparr>minWorkers = 1, maxWorkers = 5, nPrioWorkers = 2, jobList = []\<rparr>"
  let ?job = "\<lparr>job_client = 0, job_msg = known_call, job_prog = Some 0\<rparr>"
  have p: "workers (srv (world0 server0)) = Some ?pool"
    by (simp add: world0_def server0_def)
  have f: "find (\<lambda>p. p_matches (prog_objs (world0 server0) p) known_call)
             (programs (srv (world0 server0))) = Some 0"
    by (simp add: world0_def server0_def prog0_def known_call_def)
  have i: "c_refs (client_objs (world0 server0) 0) = 1" "p_refs (prog_objs (world0 server0) 0) = 1"
    by (simp_all add: world0_def new_client_def prog0_def)
  have e: "sendjob_fails (srv_ok\<lparr>sendjob_fails := True\<rparr>)" "\<not> job_alloc_fails srv_ok"
          "\<not> sendjob_fails srv_ok"
    by (simp_all add: srv_ok_def)
  have j: "job_client ?job = 0"
    by simp
  from virNetServerDispatchNewMessage_refs
         [where w = "world0 server0" and pool = ?pool and env = "srv_ok\<lparr>sendjob_fails := True\<rparr>"
            and a = 0 and m = known_call, THEN conjunct1] p e(1) i
  have 1: "\<exists>err w'. virNetServerDispatchNewMessage (srv_ok\<lparr>sendjob_fails := True\<rparr>) 0 known_call
        (world0 server0) = (-1, err, w') \<and>
      c_refs (client_objs w' 0) = 1 \<and> p_refs (prog_objs w' 0) = 1"
    by auto
  from virNetServerDispatchNewMessage_refs
         [where w = "world0 server0" and pool = ?pool and env = srv_ok
            and a = 0 and m = known_call, THEN conjunct1] p e(2,3) i f
  have 2: "\<exists>err w'. virNetServerDispatchNewMessage srv_ok 0 known_call (world0 server0) =
        (0, err, w') \<and>
      c_refs (client_objs w' 0) = 1 \<and> p_refs (prog_objs w' 0) = 2"
    by auto
  from virNetServerDispatchNewMessage_refs
         [where env = srv_ok and job = ?job and v = "world0 server0", THEN conjunct2]
  have "c_refs (client_objs (virNetServerHandleJob srv_ok ?job (world0 server0)) (job_client ?job)) =
        c_refs (client_objs (world0 server0) (job_client ?job)) - 1"
    by blast
  with i(1) j
  have 3: "c_refs (client_objs (virNetServerHandleJob srv_ok ?job (world0 server0)) 0) = 0"
    by simp
  from 1 2 3 show ?thesis by blast
qed

section \<open>Properties: saving and restoring the server across exec-restart\<close>

lemma restore_services_keeps:
  "restore_services env ds w = Inr w' \<Longrightarrow>
   workers (srv w') = workers (srv w) \<and> nclients_max (srv w') = nclients_max (srv w)"
  by (induction ds arbitrary: w)
     (auto simp: virNetServerAddService_def split: option.splits if_splits)

lemma restore_clients_keeps:
  "restore_clients env senv ds w = Inr w' \<Longrightarrow>
   workers (srv w') = workers (srv w) \<and> nclients_max (srv w') = nclients_max (srv w)"
proof (induction ds arbitrary: w)
  case Nil
  then show ?case by simp
next
  case (Cons d ds)
  then show ?case
    by (fastforce simp: virNetServerAddClient_def Let_def virNetServerClientInit_def ref_client_def
          unref_client_def virNetServerClientSetDispatcher_def virNetServerClientInitKeepAlive_def
          split: option.splits if_splits prod.splits)
qed

text \<open>
  Whatever the document says about \<^verbatim>\<open>max_workers\<close>, a server restored from it
  has a pool whose maximum is the document's \<^verbatim>\<open>max_clients\<close> (and no pool at
  all when that is zero): \<^verbatim>\<open>virNetServerNew\<close> is called with \<^verbatim>\<open>max_clients\<close> in
  the place of \<^verbatim>\<open>max_workers\<close>.
\<close>

lemma NewPostExecRestart_max_workers_is_max_clients:
  assumes "virNetServerNewPostExecRestart env senv object w = Inr w'"
  shows "virJSONValueObjectGetNumberUint object ''max_clients'' = Some (nclients_max (srv w')) \<and>
         workers (srv w') =
           (if nclients_max (srv w') \<noteq> 0
            then Some \<lparr>minWorkers = the (virJSONValueObjectGetNumberUint object ''min_workers''),
                       maxWorkers = nclients_max (srv w'),
                       nPrioWorkers = the (virJSONValueObjectGetNumberUint object ''priority_workers''),
                       jobList = []\<rparr>
            else None)"
  using assms
  by (auto simp: virNetServerNewPostExecRestart_def need_def virNetServerNew_def
           virThreadPoolNew_def
           split: option.splits if_splits json.splits sum.splits
           dest!: restore_services_keeps restore_clients_keeps)

text \<open>
  Claim C2 at a concrete server.  Saving the server gives the document with
  \<^verbatim>\<open>max_workers\<close> 5 and \<^verbatim>\<open>max_clients\<close> 20; the server restored from it has one
  Service and one Connection again and the same \<^verbatim>\<open>min_workers\<close>,
  \<^verbatim>\<open>priority_workers\<close>, \<^verbatim>\<open>max_clients\<close> and keepalive settings, but its
  \<^verbatim>\<open>max_workers\<close> is 20, not 5.
\<close>

theorem exec_restart_max_workers_lost:
  "virNetServerPreExecRestart renv0 (world0 server1) = Inr doc1 \<and>
   map_option maxWorkers (workers server1) = Some 5 \<and>
   (\<exists>w'. virNetServerNewPostExecRestart renv0 srv_ok doc1 (world0 blank_server) = Inr w' \<and>
      map_option maxWorkers (workers (srv w')) = Some 20 \<and>
      map_option minWorkers (workers (srv w')) = Some 1 \<and>
      map_option nPrioWorkers (workers (srv w')) = Some 2 \<and>
      nclients_max (srv w') = 20 \<and> keepaliveInterval (srv w') = 5 \<and>
      keepaliveCount (srv w') = 3 \<and> keepaliveRequired (srv w') \<and>
      length (services (srv w')) = length (services server1) \<and>
      length (clients (srv w')) = length (clients server1))"
proof -
  have pre: "virNetServerPreExecRestart renv0 (world0 server1) = Inr doc1"
    by (simp add: virNetServerPreExecRestart_def save_child_def renv0_def world0_def
        server1_def server0_def doc1_def uint32_def uint_of_int_def)
  have post: "\<exists>w'. virNetServerNewPostExecRestart renv0 srv_ok doc1 (world0 blank_server) = Inr w' \<and>
      srv w' = server1\<lparr>workers := Some \<lparr>minWorkers = 1, maxWorkers = 20, nPrioWorkers = 2,
                                         jobList = []\<rparr>, programs := []\<rparr>"
    by (simp add: virNetServerNewPostExecRestart_def need_def doc1_def renv0_def unwrap_def
        virJSONValueObjectGetNumberUint_def virJSONValueObjectGet_def
        virJSONValueObjectGetBoolean_def virJSONValueObjectGetString_def
        virNetServerNew_def virThreadPoolNew_def int_of_uint_def uint32_def
        virNetServerAddService_def
        virNetServerAddClient_def srv_ok_def world0_def Let_def
        virNetServerClientInit_def ref_client_def unref_client_def
        virNetServerClientSetDispatcher_def virNetServerClientInitKeepAlive_def
        server1_def server0_def)
  have orig: "map_option maxWorkers (workers server1) = Some 5"
    by (simp add: server1_def server0_def)
  from post obtain w' where
    w: "virNetServerNewPostExecRestart renv0 srv_ok doc1 (world0 blank_server) = Inr w'"
       "srv w' = server1\<lparr>workers := Some \<lparr>minWorkers = 1, maxWorkers = 20, nPrioWorkers = 2,
                                         jobList = []\<rparr>, programs := []\<rparr>"
    by blast
  from w(2) have "map_option maxWorkers (workers (srv w')) = Some 20 \<and>
      map_option minWorkers (workers (srv w')) = Some 1 \<and>
      map_option nPrioWorkers (workers (srv w')) = Some 2 \<and>
      nclients_max (srv w') = 20 \<and> keepaliveInterval (srv w') = 5 \<and>
      keepaliveCount (srv w') = 3 \<and> keepaliveRequired (srv w') \<and>
      length (services (srv w')) = length (services server1) \<and>
      length (clients (srv w')) = length (clients server1)"
    by (simp add: server1_def server0_def)
  with pre orig w(1) show ?thesis by blast
qed

end
